theory Spec2Isabelle
  imports Complex_Main "HOL-Library.Sublist" "HOL-Library.Monad_Syntax"
begin

section \<open>Conventions of the embedding\<close>

text \<open>
  The simulation core is TypeScript. A JavaScript \<open>number\<close> that the source reads from its
  input or keeps in a field is embedded as a \<open>real\<close>: the arithmetic is the exact one,
  without rounding error or signed zero. A value that the source computes and that may be
  \<open>NaN\<close> or infinite is a \<open>jsnum\<close>; a field of a business or of a report that may hold
  \<open>NaN\<close> is a \<open>real option\<close> with \<open>None\<close> for \<open>NaN\<close>, and the one field that holds
  \<open>Infinity\<close>, \<open>waterDistance\<close>, is a \<open>real option\<close> with \<open>None\<close> for \<open>Infinity\<close>. \<open>Math.random()\<close> and \<open>Date.now()\<close> are
  inputs of the functions that call them. A \<open>Map\<close> is an association list in insertion
  order and a \<open>Set\<close> a list without repetition in insertion order.
\<close>

subsection \<open>JavaScript helpers\<close>

text \<open>\<open>Math.round\<close>: the nearest integer, a tie going up.\<close>

definition js_round :: "real \<Rightarrow> real" where
  "js_round v = of_int \<lfloor>v + 1 / 2\<rfloor>"

text \<open>\<open>Map.get\<close>, \<open>Map.set\<close> and \<open>Map.delete\<close> on an association list.\<close>

definition map_get :: "('k \<times> 'v) list \<Rightarrow> 'k \<Rightarrow> 'v option" where
  "map_get m k = map_of m k"

fun map_set :: "'k \<Rightarrow> 'v \<Rightarrow> ('k \<times> 'v) list \<Rightarrow> ('k \<times> 'v) list" where
  "map_set k v [] = [(k, v)]"
| "map_set k v ((k', v') # m) = (if k' = k then (k, v) # m else (k', v') # map_set k v m)"

definition map_delete :: "'k \<Rightarrow> ('k \<times> 'v) list \<Rightarrow> ('k \<times> 'v) list" where
  "map_delete k m = filter (\<lambda>e. fst e \<noteq> k) m"

text \<open>\<open>Set.add\<close> on a list without repetition.\<close>

definition set_add :: "'a \<Rightarrow> 'a list \<Rightarrow> 'a list" where
  "set_add a xs = (if a \<in> set xs then xs else xs @ [a])"

text \<open>A comparison \<open>d < c\<close> where \<open>d\<close> may be \<open>Infinity\<close>.\<close>

fun inf_less :: "real option \<Rightarrow> real \<Rightarrow> bool" where
  "inf_less None c = False"
| "inf_less (Some d) c = (d < c)"

text \<open>
  The numbers of JavaScript that are not finite, with the arithmetic of the language on them.
  A zero divisor is taken as \<open>+0\<close>.
\<close>

datatype jsnum = Num real | NaN | PosInf | NegInf

fun js_neg :: "jsnum \<Rightarrow> jsnum" where
  "js_neg (Num a) = Num (- a)"
| "js_neg NaN = NaN"
| "js_neg PosInf = NegInf"
| "js_neg NegInf = PosInf"

fun js_add :: "jsnum \<Rightarrow> jsnum \<Rightarrow> jsnum" where
  "js_add (Num a) (Num b) = Num (a + b)"
| "js_add NaN b = NaN"
| "js_add a NaN = NaN"
| "js_add PosInf NegInf = NaN"
| "js_add NegInf PosInf = NaN"
| "js_add PosInf b = PosInf"
| "js_add NegInf b = NegInf"
| "js_add (Num a) b = b"

definition js_sub :: "jsnum \<Rightarrow> jsnum \<Rightarrow> jsnum" where
  "js_sub a b = js_add a (js_neg b)"

text \<open>The sign of an infinity times a number, and the product.\<close>

fun js_scale :: "jsnum \<Rightarrow> real \<Rightarrow> jsnum" where
  "js_scale i b = (if b = 0 then NaN else if b > 0 then i else js_neg i)"

fun js_mul :: "jsnum \<Rightarrow> jsnum \<Rightarrow> jsnum" where
  "js_mul (Num a) (Num b) = Num (a * b)"
| "js_mul NaN b = NaN"
| "js_mul a NaN = NaN"
| "js_mul PosInf (Num b) = js_scale PosInf b"
| "js_mul NegInf (Num b) = js_scale NegInf b"
| "js_mul (Num a) PosInf = js_scale PosInf a"
| "js_mul (Num a) NegInf = js_scale NegInf a"
| "js_mul PosInf PosInf = PosInf"
| "js_mul NegInf NegInf = PosInf"
| "js_mul PosInf NegInf = NegInf"
| "js_mul NegInf PosInf = NegInf"

fun js_divide :: "jsnum \<Rightarrow> jsnum \<Rightarrow> jsnum" where
  "js_divide (Num a) (Num b) =
     (if b \<noteq> 0 then Num (a / b)
      else if a = 0 then NaN else if a > 0 then PosInf else NegInf)"
| "js_divide NaN b = NaN"
| "js_divide a NaN = NaN"
| "js_divide (Num a) PosInf = Num 0"
| "js_divide (Num a) NegInf = Num 0"
| "js_divide PosInf (Num b) = (if b \<ge> 0 then PosInf else NegInf)"
| "js_divide NegInf (Num b) = (if b \<ge> 0 then NegInf else PosInf)"
| "js_divide PosInf b = NaN"
| "js_divide NegInf b = NaN"

text \<open>\<open>Math.max\<close>, \<open>Math.min\<close>, \<open>Math.exp\<close> and \<open>Math.log\<close>.\<close>

fun js_max :: "jsnum \<Rightarrow> jsnum \<Rightarrow> jsnum" where
  "js_max (Num a) (Num b) = Num (max a b)"
| "js_max NaN b = NaN"
| "js_max a NaN = NaN"
| "js_max PosInf b = PosInf"
| "js_max a PosInf = PosInf"
| "js_max NegInf b = b"
| "js_max a NegInf = a"

fun js_min :: "jsnum \<Rightarrow> jsnum \<Rightarrow> jsnum" where
  "js_min (Num a) (Num b) = Num (min a b)"
| "js_min NaN b = NaN"
| "js_min a NaN = NaN"
| "js_min NegInf b = NegInf"
| "js_min a NegInf = NegInf"
| "js_min PosInf b = b"
| "js_min a PosInf = a"

fun js_exp :: "jsnum \<Rightarrow> jsnum" where
  "js_exp (Num a) = Num (exp a)"
| "js_exp NaN = NaN"
| "js_exp PosInf = PosInf"
| "js_exp NegInf = Num 0"

fun js_log :: "jsnum \<Rightarrow> jsnum" where
  "js_log (Num a) = (if a > 0 then Num (ln a) else if a = 0 then NegInf else NaN)"
| "js_log NaN = NaN"
| "js_log PosInf = PosInf"
| "js_log NegInf = NaN"

text \<open>\<open>Math.floor\<close> and \<open>Math.ceil\<close>, and the comparisons \<open>>=\<close>, \<open><\<close> and \<open>===\<close>.\<close>

fun js_floor :: "jsnum \<Rightarrow> jsnum" where
  "js_floor (Num a) = Num (of_int \<lfloor>a\<rfloor>)"
| "js_floor NaN = NaN"
| "js_floor PosInf = PosInf"
| "js_floor NegInf = NegInf"

fun js_ceil :: "jsnum \<Rightarrow> jsnum" where
  "js_ceil (Num a) = Num (of_int \<lceil>a\<rceil>)"
| "js_ceil NaN = NaN"
| "js_ceil PosInf = PosInf"
| "js_ceil NegInf = NegInf"

fun js_lt :: "jsnum \<Rightarrow> jsnum \<Rightarrow> bool" where
  "js_lt (Num a) (Num b) = (a < b)"
| "js_lt NaN b = False"
| "js_lt a NaN = False"
| "js_lt PosInf b = False"
| "js_lt a NegInf = False"
| "js_lt NegInf b = True"
| "js_lt (Num a) PosInf = True"

fun js_ge :: "jsnum \<Rightarrow> jsnum \<Rightarrow> bool" where
  "js_ge (Num a) (Num b) = (a \<ge> b)"
| "js_ge NaN b = False"
| "js_ge a NaN = False"
| "js_ge PosInf b = True"
| "js_ge a NegInf = True"
| "js_ge NegInf b = False"
| "js_ge (Num a) PosInf = False"

fun js_eq :: "jsnum \<Rightarrow> jsnum \<Rightarrow> bool" where
  "js_eq NaN b = False"
| "js_eq a NaN = False"
| "js_eq a b = (a = b)"

text \<open>A loop over a list whose body may fail to give a result.\<close>

fun forEach :: "('a \<Rightarrow> 'b option) \<Rightarrow> 'a list \<Rightarrow> 'b list option" where
  "forEach f [] = Some []"
| "forEach f (x # xs) = do { y \<leftarrow> f x; ys \<leftarrow> forEach f xs; Some (y # ys) }"

record Vector3 =
  vx :: real
  vy :: real
  vz :: real

section \<open>TerrainSystem\<close>

datatype FactorType = Pollution | Noise | Traffic | Scenic | WaterFactor

datatype FalloffType = Linear | Exponential | Logarithmic

record EnvironmentalFactor =
  factorType :: FactorType
  source :: Vector3
  intensity :: real
  radius :: real
  falloffType :: FalloffType

record TerrainCell =
  cell_x :: real
  cell_z :: real
  elevation :: real
  baseValue :: real
  currentValue :: real
  pollution :: real
  noise :: real
  traffic :: real
  waterDistance :: "real option"
  scenicValue :: real
  soilQuality :: real
  developmentCost :: real
  isWater :: bool
  isProtected :: bool
  zoneRestrictions :: "string list"
  lastUpdated :: real

text \<open>
  The key of a cell in \<open>terrainCells\<close> is the string \<open>`${gridX},${gridZ}`\<close>; two keys are
  equal exactly when the two numbers are, so the key is the pair of numbers.
\<close>

type_synonym CellKey = "real \<times> real"

record TerrainSystem =
  terrainCells :: "(CellKey \<times> TerrainCell) list"
  environmentalFactors :: "EnvironmentalFactor list"
  waterBodies :: "Vector3 list list"
  cellSize :: real
  updateQueue :: "CellKey list"
  lastGlobalUpdate :: real

text \<open>The constants of \<open>TERRAIN_CONFIG\<close> (gameConstants.ts).\<close>

definition WATER_PROXIMITY_BONUS :: real where "WATER_PROXIMITY_BONUS = 3 / 10"
definition ELEVATION_FACTOR :: real where "ELEVATION_FACTOR = 2 / 10"
definition POLLUTION_PENALTY :: real where "POLLUTION_PENALTY = 5 / 10"
definition NOISE_PENALTY :: real where "NOISE_PENALTY = 3 / 10"
definition SCENIC_BONUS :: real where "SCENIC_BONUS = 4 / 10"

definition calculateFalloff :: "real \<Rightarrow> real \<Rightarrow> FalloffType \<Rightarrow> jsnum" where
  "calculateFalloff distance r t =
     (let normalizedDistance = js_divide (Num distance) (Num r) in
      case t of
        Linear \<Rightarrow> js_max (Num 0) (js_sub (Num 1) normalizedDistance)
      | Exponential \<Rightarrow> js_exp (js_mul (js_neg normalizedDistance) (Num 3))
      | Logarithmic \<Rightarrow>
          js_max (Num 0)
            (js_sub (Num 1)
               (js_divide (js_log (js_add (Num 1) (js_mul normalizedDistance (Num 2))))
                  (js_log (Num 3)))))"

definition calculateBaseDevelopmentCost :: "real \<Rightarrow> real \<Rightarrow> real" where
  "calculateBaseDevelopmentCost elev soil =
     (let cost = 1000;
          cost = (if elev > 15 then cost * (1 + (elev - 15) * (1 / 10)) else cost)
      in cost * (2 - soil))"

definition calculateDevelopmentCost :: "TerrainCell \<Rightarrow> real" where
  "calculateDevelopmentCost cell =
     (let cost = calculateBaseDevelopmentCost (elevation cell) (soilQuality cell);
          cost = (if pollution cell > 1 / 10 then cost * (1 + pollution cell) else cost);
          cost = (if inf_less (waterDistance cell) 10 then cost * (95 / 100) else cost);
          cost = (if isProtected cell then cost * (15 / 10) else cost)
      in cost)"

text \<open>
  One round of the \<open>forEach\<close> over the environmental factors in \<open>calculateCellValue\<close>:
  the accumulator is \<open>(pollution, noise, scenic)\<close>.
\<close>

definition factorImpact ::
  "TerrainCell \<Rightarrow> EnvironmentalFactor \<Rightarrow> jsnum \<times> jsnum \<times> jsnum \<Rightarrow> jsnum \<times> jsnum \<times> jsnum" where
  "factorImpact cell factor acc =
     (case acc of (p, n, s) \<Rightarrow>
      let distance = sqrt ((cell_x cell - vx (source factor))\<^sup>2
                         + (cell_z cell - vz (source factor))\<^sup>2)
      in if distance \<le> radius factor
         then (let falloff = calculateFalloff distance (radius factor) (falloffType factor);
                   impact = js_mul (Num (intensity factor)) falloff
               in case factorType factor of
                    Pollution \<Rightarrow> (js_add p impact, n, s)
                  | Noise \<Rightarrow> (p, js_add n impact, s)
                  | Scenic \<Rightarrow> (p, n, js_add s impact)
                  | _ \<Rightarrow> (p, n, s))
         else (p, n, s))"

definition waterBonus :: "TerrainCell \<Rightarrow> real" where
  "waterBonus cell =
     (case waterDistance cell of
        None \<Rightarrow> 0
      | Some d \<Rightarrow> if d < 50 \<and> \<not> isWater cell
                  then max 0 ((50 - d) / 50) * WATER_PROXIMITY_BONUS else 0)"

text \<open>
  The four numbers that \<open>calculateCellValue\<close> computes and stores in the cell: \<open>pollution\<close>,
  \<open>noise\<close>, \<open>scenicValue\<close> and \<open>currentValue\<close>, the last one being
  \<open>Math.max(0, Math.min(1, value))\<close>.
\<close>

definition cellValues :: "EnvironmentalFactor list \<Rightarrow> TerrainCell \<Rightarrow> jsnum \<times> jsnum \<times> jsnum \<times> jsnum" where
  "cellValues factors cell =
     (let v = baseValue cell;
          v = v + waterBonus cell;
          optimalElevation = 10;
          elevationDifference = \<bar>elevation cell - optimalElevation\<bar>;
          elevationFactor = max 0 (1 - elevationDifference / optimalElevation) * ELEVATION_FACTOR;
          v = v + elevationFactor
      in case fold (factorImpact cell) factors (Num 0, Num 0, Num 0) of (p, n, s) \<Rightarrow>
      let v = js_sub (Num v) (js_mul p (Num POLLUTION_PENALTY));
          v = js_sub v (js_mul n (Num NOISE_PENALTY));
          v = js_add v (js_mul s (Num SCENIC_BONUS));
          v = js_add v (Num ((soilQuality cell - 1 / 2) * (2 / 10)));
          v = (if isProtected cell then js_add v (Num (15 / 100)) else v)
      in (p, n, s, js_max (Num 0) (js_min (Num 1) v)))"

text \<open>
  The fields of a \<open>TerrainCell\<close> are reals. \<open>calculateCellValue\<close> gives the cell with the
  four numbers stored and the development cost recomputed from them, and \<open>None\<close> when one of
  the four is \<open>NaN\<close> or infinite, which the source stores in the cell all the same.
\<close>

definition calculateCellValue ::
  "EnvironmentalFactor list \<Rightarrow> real \<Rightarrow> TerrainCell \<Rightarrow> TerrainCell option" where
  "calculateCellValue factors now cell =
     (case cellValues factors cell of
        (Num p, Num n, Num s, Num v) \<Rightarrow>
          (let cell = cell\<lparr>pollution := p, noise := n, scenicValue := s,
                          currentValue := v, lastUpdated := now\<rparr>
           in Some (cell\<lparr>developmentCost := calculateDevelopmentCost cell\<rparr>))
      | _ \<Rightarrow> None)"

text \<open>
  The scenic factor that \<open>updateEnvironmentalFactors\<close> makes of a protected area with the
  given centre and radius, such as \<open>addProtectedArea\<close> records.
\<close>

definition protectedAreaFactor :: "Vector3 \<Rightarrow> real \<Rightarrow> EnvironmentalFactor" where
  "protectedAreaFactor center r =
     \<lparr>factorType = Scenic, source = center, intensity = 8 / 10, radius = r * (15 / 10),
      falloffType = Linear\<rparr>"

text \<open>
  The full pass: every cell is recomputed and its key is queued. \<open>None\<close>: some cell now
  holds a number that is not finite.
\<close>

definition updateAllTerrainValues :: "real \<Rightarrow> TerrainSystem \<Rightarrow> TerrainSystem option" where
  "updateAllTerrainValues now ts = do {
     cells \<leftarrow> forEach
       (\<lambda>(key, cell). map_option (Pair key) (calculateCellValue (environmentalFactors ts) now cell))
       (terrainCells ts);
     Some (ts\<lparr>terrainCells := cells,
              updateQueue := fold set_add (map fst (terrainCells ts)) (updateQueue ts)\<rparr>)
   }"

text \<open>The incremental pass: the cells whose key is queued are recomputed.\<close>

fun recomputeQueued ::
  "EnvironmentalFactor list \<Rightarrow> real \<Rightarrow> CellKey list \<Rightarrow> (CellKey \<times> TerrainCell) list
     \<Rightarrow> (CellKey \<times> TerrainCell) list option" where
  "recomputeQueued factors now [] cells = Some cells"
| "recomputeQueued factors now (key # keys) cells =
     (case map_get cells key of
        None \<Rightarrow> recomputeQueued factors now keys cells
      | Some cell \<Rightarrow> do {
          cell' \<leftarrow> calculateCellValue factors now cell;
          recomputeQueued factors now keys (map_set key cell' cells)
        })"

definition updateQueuedCells :: "real \<Rightarrow> TerrainSystem \<Rightarrow> TerrainSystem option" where
  "updateQueuedCells now ts = do {
     cells \<leftarrow> recomputeQueued (environmentalFactors ts) now (updateQueue ts) (terrainCells ts);
     Some (ts\<lparr>terrainCells := cells\<rparr>)
   }"

subsection \<open>Pollution spread\<close>

definition getCellKey :: "real \<Rightarrow> real \<Rightarrow> real \<Rightarrow> CellKey" where
  "getCellKey cs x z = (js_round (x / cs) * cs, js_round (z / cs) * cs)"

definition getNeighborCells :: "TerrainSystem \<Rightarrow> real \<Rightarrow> real \<Rightarrow> TerrainCell list" where
  "getNeighborCells ts x z =
     (let offsets = [(- cellSize ts, 0), (cellSize ts, 0), (0, - cellSize ts), (0, cellSize ts)]
      in List.map_filter
           (\<lambda>(ox, oz). map_get (terrainCells ts) (getCellKey (cellSize ts) (x + ox) (z + oz)))
           offsets)"

text \<open>The inner \<open>forEach\<close> of the first loop: one neighbour receives the share.\<close>

definition addSpread :: "real \<Rightarrow> real \<Rightarrow> TerrainCell \<Rightarrow> (CellKey \<times> real) list \<Rightarrow> (CellKey \<times> real) list" where
  "addSpread cs spreadAmount neighbor m =
     (let neighborKey = getCellKey cs (cell_x neighbor) (cell_z neighbor);
          currentSpread = (case map_get m neighborKey of None \<Rightarrow> 0 | Some a \<Rightarrow> a)
      in map_set neighborKey (currentSpread + spreadAmount) m)"

text \<open>The body of the first loop, for one cell.\<close>

definition donate :: "TerrainSystem \<Rightarrow> real \<Rightarrow> TerrainCell \<Rightarrow> (CellKey \<times> real) list \<Rightarrow> (CellKey \<times> real) list" where
  "donate ts spreadRate cell m =
     (if pollution cell > 5 / 100
      then (let neighbors = getNeighborCells ts (cell_x cell) (cell_z cell);
                spreadAmount = pollution cell * spreadRate / real (length neighbors)
            in fold (addSpread (cellSize ts) spreadAmount) neighbors m)
      else m)"

definition newPollutionMap :: "TerrainSystem \<Rightarrow> real \<Rightarrow> (CellKey \<times> real) list" where
  "newPollutionMap ts spreadRate =
     fold (\<lambda>(key, cell). donate ts spreadRate cell) (terrainCells ts) []"

text \<open>The body of the second loop, for one entry of the new pollution map.\<close>

definition applySpread :: "CellKey \<times> real \<Rightarrow> TerrainSystem \<Rightarrow> TerrainSystem" where
  "applySpread e ts =
     (case e of (key, amount) \<Rightarrow>
      case map_get (terrainCells ts) key of
        None \<Rightarrow> ts
      | Some cell \<Rightarrow>
          if \<not> isWater cell
          then ts\<lparr>terrainCells :=
                    map_set key (cell\<lparr>pollution := min 1 (pollution cell + amount)\<rparr>)
                      (terrainCells ts),
                  updateQueue := set_add key (updateQueue ts)\<rparr>
          else ts)"

definition spreadPollution :: "real \<Rightarrow> TerrainSystem \<Rightarrow> TerrainSystem" where
  "spreadPollution deltaTime ts =
     (let spreadRate = deltaTime * (1 / 10)
      in fold applySpread (newPollutionMap ts spreadRate) ts)"

subsection \<open>A small terrain\<close>

text \<open>Two adjacent cells of size 2; the first is polluted, the second is clean and queued.\<close>

definition exCellA :: TerrainCell where
  "exCellA = \<lparr>cell_x = 1, cell_z = 1, elevation = 8, baseValue = 1 / 2, currentValue = 1 / 2,
     pollution = 1 / 2, noise = 0, traffic = 0, waterDistance = Some 30, scenicValue = 0,
     soilQuality = 7 / 10, developmentCost = 1300, isWater = False, isProtected = False,
     zoneRestrictions = [], lastUpdated = 0\<rparr>"

definition exCellB :: TerrainCell where
  "exCellB = exCellA\<lparr>cell_x := 3, pollution := 0\<rparr>"

definition exTerrain :: TerrainSystem where
  "exTerrain = \<lparr>terrainCells = [((2, 2), exCellA), ((4, 2), exCellB)], environmentalFactors = [],
     waterBodies = [], cellSize = 2, updateQueue = [(4, 2)], lastGlobalUpdate = 0\<rparr>"

text \<open>
  The same terrain after \<open>addProtectedArea(new Vector3(1, 0, 1), 0, 'park')\<close> and the
  \<open>updateEnvironmentalFactors\<close> of the next update: a protected area of radius 0 whose centre
  is the position of the first cell.
\<close>

definition exProtectedArea :: EnvironmentalFactor where
  "exProtectedArea = protectedAreaFactor \<lparr>vx = 1, vy = 0, vz = 1\<rparr> 0"

definition exProtectedTerrain :: TerrainSystem where
  "exProtectedTerrain = exTerrain\<lparr>environmentalFactors := [exProtectedArea]\<rparr>"

subsection \<open>The effect of a spread pass, stated on the grid\<close>

text \<open>
  The cells that donate, the share a donor hands to each of its existing axis-neighbours, the
  number of shares of a donor that go to a key, the amount a key receives from all donors, and
  the cell a pending amount turns a cell into.
\<close>


definition cellKeyOf :: "TerrainSystem \<Rightarrow> TerrainCell \<Rightarrow> CellKey" where
  "cellKeyOf ts n = getCellKey (cellSize ts) (cell_x n) (cell_z n)"

definition donors :: "TerrainSystem \<Rightarrow> TerrainCell list" where
  "donors ts = filter (\<lambda>cell. pollution cell > 5 / 100) (map snd (terrainCells ts))"

definition shareOf :: "TerrainSystem \<Rightarrow> real \<Rightarrow> TerrainCell \<Rightarrow> real" where
  "shareOf ts spreadRate d =
     pollution d * spreadRate / real (length (getNeighborCells ts (cell_x d) (cell_z d)))"

definition sharesTo :: "TerrainSystem \<Rightarrow> CellKey \<Rightarrow> TerrainCell \<Rightarrow> nat" where
  "sharesTo ts k d =
     length (filter (\<lambda>n. cellKeyOf ts n = k) (getNeighborCells ts (cell_x d) (cell_z d)))"

definition received :: "TerrainSystem \<Rightarrow> real \<Rightarrow> CellKey \<Rightarrow> real" where
  "received ts spreadRate k =
     sum_list (map (\<lambda>d. real (sharesTo ts k d) * shareOf ts spreadRate d) (donors ts))"

definition receives :: "TerrainSystem \<Rightarrow> CellKey \<Rightarrow> bool" where
  "receives ts k = list_ex (\<lambda>d. 0 < sharesTo ts k d) (donors ts)"

definition amountAt :: "(CellKey \<times> real) list \<Rightarrow> CellKey \<Rightarrow> real" where
  "amountAt m k = (case map_get m k of None \<Rightarrow> 0 | Some a \<Rightarrow> a)"


definition spreadTo :: "real option \<Rightarrow> TerrainCell \<Rightarrow> TerrainCell" where
  "spreadTo amount c =
     (case amount of
        None \<Rightarrow> c
      | Some a \<Rightarrow> if isWater c then c else c\<lparr>pollution := min 1 (pollution c + a)\<rparr>)"

section \<open>EconomicEngine\<close>

text \<open>
  A quotient with a zero divisor is \<open>Infinity\<close> or \<open>NaN\<close> and has no value among the reals.
  In the economic engine a quotient by a divisor that is not a literal is formed by \<open>js_div\<close>
  where the source goes on computing with it, and a function returns \<open>None\<close> when it has
  formed such a quotient by zero. Where the source only clamps and stores the quotient, the
  embedding follows it with the arithmetic of \<open>jsnum\<close>.
\<close>

definition js_div :: "real \<Rightarrow> real \<Rightarrow> real option" where
  "js_div a b = (if b = 0 then None else Some (a / b))"

text \<open>\<open>x || d\<close> on numbers: \<open>0\<close> is falsy.\<close>

definition js_or :: "real \<Rightarrow> real \<Rightarrow> real" where
  "js_or x d = (if x = 0 then d else x)"

text \<open>
  A number that may be \<open>NaN\<close> is a \<open>real option\<close>, and \<open>None\<close> is \<open>NaN\<close>: a comparison with
  \<open>NaN\<close> is false, also \<open>==\<close>, and arithmetic on \<open>NaN\<close> gives \<open>NaN\<close>.
\<close>

definition nan_gt :: "real option \<Rightarrow> real \<Rightarrow> bool" where
  "nan_gt a c = (case a of None \<Rightarrow> False | Some x \<Rightarrow> x > c)"

definition nan_eq :: "real option \<Rightarrow> real option \<Rightarrow> bool" where
  "nan_eq a b = (case a of None \<Rightarrow> False | Some x \<Rightarrow> (case b of None \<Rightarrow> False | Some y \<Rightarrow> x = y))"

definition nan_add :: "real option \<Rightarrow> real option \<Rightarrow> real option" where
  "nan_add a b = do { x \<leftarrow> a; y \<leftarrow> b; Some (x + y) }"

definition nan_sub :: "real option \<Rightarrow> real option \<Rightarrow> real option" where
  "nan_sub a b = do { x \<leftarrow> a; y \<leftarrow> b; Some (x - y) }"

definition nan_mul :: "real option \<Rightarrow> real option \<Rightarrow> real option" where
  "nan_mul a b = do { x \<leftarrow> a; y \<leftarrow> b; Some (x * y) }"

text \<open>
  The names of the members that an object literal inherits from \<open>Object.prototype\<close>. A
  lookup \<open>table[key]\<close> in an object literal finds them like the keys of the literal; what it
  finds is a function or an object, which is truthy, and as a factor of a product makes the
  product \<open>NaN\<close>.
\<close>

definition objectPrototypeMembers :: "string list" where
  "objectPrototypeMembers =
     [''constructor'', ''__defineGetter__'', ''__defineSetter__'', ''hasOwnProperty'',
      ''__lookupGetter__'', ''__lookupSetter__'', ''isPrototypeOf'', ''propertyIsEnumerable'',
      ''toString'', ''valueOf'', ''__proto__'', ''toLocaleString'']"

text \<open>\<open>s.includes(t)\<close> on strings.\<close>

fun js_includes :: "string \<Rightarrow> string \<Rightarrow> bool" where
  "js_includes [] t = (t = [])"
| "js_includes (c # cs) t = (prefix t (c # cs) \<or> js_includes cs t)"

text \<open>\<open>THREE.Vector3.distanceTo\<close>.\<close>

definition distanceTo :: "Vector3 \<Rightarrow> Vector3 \<Rightarrow> real" where
  "distanceTo a b = sqrt ((vx a - vx b)\<^sup>2 + (vy a - vy b)\<^sup>2 + (vz a - vz b)\<^sup>2)"

datatype ZoneType = Residential | Commercial | Industrial | Office

datatype WealthLevel = Low | Medium | High

datatype BuildingStatus = Planned | Constructing | Operational | Abandoned | Demolishing

text \<open>
  Of a \<open>Building\<close>, the fields that the simulation core reads or writes;
  \<open>constructionProgress\<close> is a number that the construction system computes.
\<close>

record Building =
  building_id :: string
  building_position :: Vector3
  zoneType :: "ZoneType option"
  wealthLevel :: WealthLevel
  building_level :: real
  status :: BuildingStatus
  constructionProgress :: jsnum
  capacity :: real
  property_value :: real

datatype AgentType = Citizen | Vehicle | Resource | Service

datatype EmploymentStatus = Unemployed | Employed | Student | Retired

datatype EducationLevel = NoEducation | Primary | Secondary | University | Advanced

text \<open>Of an \<open>Agent\<close>, the fields that the economic engine reads.\<close>

record Agent =
  agent_type :: AgentType
  agent_position :: Vector3
  education :: EducationLevel
  employment :: EmploymentStatus
  homeId :: "string option"
  workplaceId :: "string option"

text \<open>
  Of a \<open>Business\<close>, the fields that the engine reads or writes. \<open>revenue\<close>,
  \<open>operatingCosts\<close>, \<open>profit\<close> and \<open>customerSatisfaction\<close> may hold \<open>NaN\<close>.
\<close>

record Business =
  business_id :: string
  business_type :: string
  buildingId :: string
  accessibility :: real
  footTraffic :: real
  prestige :: real
  revenue :: "real option"
  operatingCosts :: "real option"
  profit :: "real option"
  rent :: real
  employees :: real
  maxEmployees :: real
  wagesPerEmployee :: real
  efficiency :: real
  customerSatisfaction :: "real option"
  isOperational :: bool
  daysSinceProfit :: real
  bankruptcyRisk :: real

datatype TradeGoodType =
  RawMaterials | ManufacturedGoods | LuxuryItems | Food | Energy | Technology

record TradeGood =
  good_id :: string
  good_type :: TradeGoodType
  basePrice :: real
  currentPrice :: real
  good_demand :: real
  good_supply :: real
  quality :: real
  imported :: bool

text \<open>
  Of \<open>EconomicData\<close>, the fields that the engine reads or writes; \<open>wealth_low\<close>,
  \<open>wealth_medium\<close> and \<open>wealth_high\<close> are \<open>wealthDistribution\<close>, and \<open>demandByZone\<close> and
  \<open>supplyByZone\<close> are the two tables of \<open>marketConditions\<close>.
\<close>

record EconomicData =
  funds :: real
  income :: real
  expenses :: real
  netIncome :: real
  residentialTaxRate :: real
  commercialTaxRate :: real
  industrialTaxRate :: real
  officeTaxRate :: real
  totalTaxRevenue :: real
  totalLoans :: real
  creditRating :: real
  cityLevel :: real
  wealth_low :: real
  wealth_medium :: real
  wealth_high :: real
  demandByZone :: "ZoneType \<Rightarrow> WealthLevel \<Rightarrow> real"
  supplyByZone :: "ZoneType \<Rightarrow> WealthLevel \<Rightarrow> real"

record EconomicEngine =
  economicData :: EconomicData
  businesses :: "Business list"
  tradeGoods :: "(string \<times> TradeGood) list"
  inflationRate :: real
  interestRate :: real

text \<open>The report; \<open>gdp\<close> sums the revenues and may be \<open>NaN\<close>.\<close>

record EconomicReport =
  gdp :: "real option"
  unemployment :: real
  inflation :: real
  tradeBalance :: real
  governmentRevenue :: real
  governmentExpenses :: real
  cityRating :: string

subsection \<open>The constructor\<close>

definition baseGood :: "string \<Rightarrow> TradeGoodType \<Rightarrow> real \<Rightarrow> string \<times> TradeGood" where
  "baseGood i t p =
     (i, \<lparr>good_id = i, good_type = t, basePrice = p, currentPrice = p, good_demand = 100,
          good_supply = 100, quality = 1, imported = True\<rparr>)"

definition initializeTradeGoods :: "(string \<times> TradeGood) list" where
  "initializeTradeGoods =
     [baseGood ''food'' Food 100,
      baseGood ''materials'' RawMaterials 200,
      baseGood ''manufactured'' ManufacturedGoods 300,
      baseGood ''luxury'' LuxuryItems 500,
      baseGood ''energy'' Energy 150,
      baseGood ''technology'' Technology 400]"

definition newEconomicEngine :: "EconomicData \<Rightarrow> EconomicEngine" where
  "newEconomicEngine initialData =
     \<lparr>economicData = initialData, businesses = [], tradeGoods = initializeTradeGoods,
      inflationRate = 2 / 100, interestRate = 5 / 100\<rparr>"

subsection \<open>Market conditions\<close>

definition zoneDemand ::
  "EconomicData \<Rightarrow> real \<Rightarrow> real \<Rightarrow> real \<Rightarrow> ZoneType \<Rightarrow> WealthLevel \<Rightarrow> real" where
  "zoneDemand ed population unemploymentRate employedShare zone wealth =
     (let demand = population * (1 / 100);
          demand = demand * (1 - unemploymentRate * (1 / 2));
          wealthFactor = (case wealth of Low \<Rightarrow> 6 / 10 | Medium \<Rightarrow> 1 | High \<Rightarrow> 18 / 10);
          demand = demand * wealthFactor;
          demand = (case zone of
                      Residential \<Rightarrow> demand * (12 / 10)
                    | Commercial \<Rightarrow> demand * (8 / 10 + employedShare * (4 / 10))
                    | Industrial \<Rightarrow> demand * (6 / 10)
                    | Office \<Rightarrow> demand * (7 / 10 + (cityLevel ed - 1) * (1 / 10)))
      in max 0 demand)"

definition zoneSupply :: "Building list \<Rightarrow> ZoneType \<Rightarrow> WealthLevel \<Rightarrow> real" where
  "zoneSupply buildings zone wealth =
     (let relevantBuildings =
            filter (\<lambda>b. zoneType b = Some zone \<and> wealthLevel b = wealth \<and> status b = Operational)
              buildings
      in fold (\<lambda>building total. total + js_or (capacity building) 0) relevantBuildings 0)"

definition updateMarketConditions ::
  "Building list \<Rightarrow> Agent list \<Rightarrow> EconomicEngine \<Rightarrow> EconomicEngine option" where
  "updateMarketConditions buildings agents e = do {
     let residents = filter (\<lambda>a. agent_type a = Citizen) agents;
     let population = real (length residents);
     let employedCitizens = real (length (filter (\<lambda>a. employment a = Employed) residents));
     unemploymentRate \<leftarrow>
       (if population > 0 then js_div (population - employedCitizens) population else Some 0);
     employedShare \<leftarrow> js_div employedCitizens (max 1 population);
     let ed = economicData e;
     let ed = ed\<lparr>demandByZone := zoneDemand ed population unemploymentRate employedShare\<rparr>;
     let ed = ed\<lparr>supplyByZone := zoneSupply buildings\<rparr>;
     Some (e\<lparr>economicData := ed\<rparr>)
   }"

subsection \<open>Businesses\<close>

text \<open>
  \<open>typeMultipliers[business.type] || 1.0\<close> as a factor: the number of the table, \<open>1.0\<close> for
  a type that the table does not have, and \<open>NaN\<close> for an inherited member.
\<close>

definition typeMultipliers :: "string \<Rightarrow> real option" where
  "typeMultipliers t =
     (if t = ''retail_store'' then Some 1
      else if t = ''restaurant'' then Some (13 / 10)
      else if t = ''service_shop'' then Some (8 / 10)
      else if t = ''entertainment'' then Some (15 / 10)
      else if t = ''manufacturing'' then Some 2
      else if t = ''warehouse'' then Some (6 / 10)
      else if t = ''processing_plant'' then Some (18 / 10)
      else if t = ''logistics'' then Some (11 / 10)
      else if t = ''consulting'' then Some (14 / 10)
      else if t = ''tech_company'' then Some (22 / 10)
      else if t = ''financial_services'' then Some (16 / 10)
      else if t = ''corporate_office'' then Some (12 / 10)
      else if t \<in> set objectPrototypeMembers then None
      else Some 1)"

definition calculateBusinessRevenue ::
  "EconomicEngine \<Rightarrow> Business \<Rightarrow> Building \<Rightarrow> Agent list \<Rightarrow> real option" where
  "calculateBusinessRevenue e business building agents =
     (let baseRevenue = 1000;
          baseRevenue = baseRevenue * (1 + accessibility business * (3 / 10));
          baseRevenue = baseRevenue * (1 + footTraffic business * (5 / 10));
          baseRevenue = baseRevenue * (1 + prestige business * (2 / 10));
          baseRevenue =
            (case zoneType building of
               None \<Rightarrow> baseRevenue
             | Some zone \<Rightarrow>
                 (let demand = js_or (demandByZone (economicData e) zone (wealthLevel building)) 1
                  in baseRevenue * max (1 / 10) (min 2 (demand / 100))));
          nearbyResidents =
            real (length (filter
              (\<lambda>agent. agent_type agent = Citizen
                 \<and> (case homeId agent of None \<Rightarrow> False | Some h \<Rightarrow> h \<noteq> [])
                 \<and> distanceTo (building_position building) (agent_position agent) < 20)
              agents));
          baseRevenue = baseRevenue * (1 + nearbyResidents * (1 / 100))
      in nan_mul (Some baseRevenue) (typeMultipliers (business_type business)))"

text \<open>\<open>supplyCosts[business.type] || 0.3\<close> as a factor, in the same way.\<close>

definition supplyCosts :: "string \<Rightarrow> real option" where
  "supplyCosts t =
     (if t = ''retail_store'' then Some (4 / 10)
      else if t = ''restaurant'' then Some (6 / 10)
      else if t = ''service_shop'' then Some (2 / 10)
      else if t = ''manufacturing'' then Some (5 / 10)
      else if t = ''warehouse'' then Some (1 / 10)
      else if t = ''processing_plant'' then Some (7 / 10)
      else if t = ''office'' then Some (1 / 10)
      else if t \<in> set objectPrototypeMembers then None
      else Some (3 / 10))"

definition calculateOperatingCosts :: "Business \<Rightarrow> Building \<Rightarrow> real option" where
  "calculateOperatingCosts business building =
     (let costs = 500;
          costs = costs + js_or (rent business) (property_value building * (1 / 1000));
          costs = costs + capacity building * 2;
          costs = costs + employees business * wagesPerEmployee business / 30;
          supplyMultiplier = supplyCosts (business_type business)
      in nan_add (Some costs) (nan_mul (revenue business) supplyMultiplier))"

definition skillLevels :: "EducationLevel \<Rightarrow> real" where
  "skillLevels l =
     (case l of NoEducation \<Rightarrow> 2 / 10 | Primary \<Rightarrow> 4 / 10 | Secondary \<Rightarrow> 6 / 10
      | University \<Rightarrow> 8 / 10 | Advanced \<Rightarrow> 1)"

definition employeesOf :: "Business \<Rightarrow> Agent list \<Rightarrow> Agent list" where
  "employeesOf business agents =
     filter (\<lambda>agent. workplaceId agent = Some (buildingId business) \<and> employment agent = Employed)
       agents"

definition calculateAverageSkillLevel :: "Business \<Rightarrow> Agent list \<Rightarrow> real option" where
  "calculateAverageSkillLevel business agents =
     (let emps = employeesOf business agents
      in if length emps = 0 then Some (3 / 10)
         else js_div (fold (\<lambda>employee sum. sum + skillLevels (education employee)) emps 0)
                (real (length emps)))"

definition getSupplyDemandRatio :: "EconomicEngine \<Rightarrow> ZoneType \<Rightarrow> WealthLevel \<Rightarrow> real option" where
  "getSupplyDemandRatio e zone wealth =
     (let s = js_or (supplyByZone (economicData e) zone wealth) 1;
          d = js_or (demandByZone (economicData e) zone wealth) 1
      in js_div s (max 1 d))"

definition calculateBusinessEfficiency ::
  "EconomicEngine \<Rightarrow> Business \<Rightarrow> Building \<Rightarrow> Agent list \<Rightarrow> real option" where
  "calculateBusinessEfficiency e business building agents = do {
     let eff = 1 / 2;
     let eff = eff + accessibility business * (2 / 10);
     let eff = eff + prestige business * (15 / 100);
     skillFactor \<leftarrow> calculateAverageSkillLevel business agents;
     let eff = eff + skillFactor * (3 / 10);
     let eff = eff + (property_value building / 100000) * (2 / 10);
     eff \<leftarrow> (case zoneType building of
               None \<Rightarrow> Some eff
             | Some zone \<Rightarrow> do {
                 supplyDemandRatio \<leftarrow> getSupplyDemandRatio e zone (wealthLevel building);
                 Some (eff + max (- (2 / 10)) (min (2 / 10) ((1 - supplyDemandRatio) * (2 / 10))))
               });
     Some (max (1 / 10) (min (15 / 10) eff))
   }"

text \<open>
  \<open>employees / maxEmployees\<close> is infinite or \<open>NaN\<close> when \<open>maxEmployees\<close> is 0; the source adds
  and clamps it like any number, and the clamp of an infinite number is 1 or 0.
\<close>

definition calculateCustomerSatisfaction :: "Business \<Rightarrow> Building \<Rightarrow> real option" where
  "calculateCustomerSatisfaction business building =
     (let satisfaction = 7 / 10;
          satisfaction = satisfaction + efficiency business * (2 / 10);
          satisfaction = satisfaction + (property_value building / 50000) * (1 / 10);
          staffing = js_divide (Num (employees business)) (Num (maxEmployees business));
          satisfaction = js_add (Num satisfaction) (js_mul staffing (Num (2 / 10)))
      in case js_max (Num 0) (js_min (Num 1) satisfaction) of
           Num v \<Rightarrow> Some v
         | _ \<Rightarrow> None)"

definition updateBusinessEmployment :: "Business \<Rightarrow> Building \<Rightarrow> Agent list \<Rightarrow> Business" where
  "updateBusinessEmployment business building agents =
     (let currentEmployees = real (length (employeesOf business agents));
          business = business\<lparr>employees := currentEmployees\<rparr>;
          optimalEmployees =
            real_of_int \<lfloor>maxEmployees business * efficiency business * (8 / 10)\<rfloor>
      in if currentEmployees < optimalEmployees \<and> nan_gt (profit business) 0
         then business\<lparr>maxEmployees :=
                min (maxEmployees business + 1) (js_or (capacity building) 50)\<rparr>
         else business)"

text \<open>
  The body of the \<open>forEach\<close> of \<open>updateBusinesses\<close>, for one business. The result is
  optional because \<open>calculateBusinessEfficiency\<close> forms quotients, which are never by zero.
\<close>

definition updateBusiness ::
  "EconomicEngine \<Rightarrow> Building list \<Rightarrow> Agent list \<Rightarrow> real \<Rightarrow> Business \<Rightarrow> Business option" where
  "updateBusiness e buildings agents deltaTime business =
     (case find (\<lambda>b. building_id b = buildingId business) buildings of
        None \<Rightarrow> Some (business\<lparr>isOperational := False\<rparr>)
      | Some building \<Rightarrow>
          if status building \<noteq> Operational then Some (business\<lparr>isOperational := False\<rparr>)
          else do {
            let rev = calculateBusinessRevenue e business building agents;
            let costs = calculateOperatingCosts business building;
            let business = business\<lparr>revenue := nan_mul (nan_mul rev (Some deltaTime)) (Some 24)\<rparr>;
            let business =
              business\<lparr>operatingCosts := nan_mul (nan_mul costs (Some deltaTime)) (Some 24)\<rparr>;
            let business =
              business\<lparr>profit := nan_sub (revenue business) (operatingCosts business)\<rparr>;
            eff \<leftarrow> calculateBusinessEfficiency e business building agents;
            let business = business\<lparr>efficiency := eff\<rparr>;
            let business =
              business\<lparr>customerSatisfaction := calculateCustomerSatisfaction business building\<rparr>;
            let business =
              (if nan_gt (profit business) 0 then business\<lparr>daysSinceProfit := 0\<rparr>
               else business\<lparr>daysSinceProfit := daysSinceProfit business + deltaTime\<rparr>);
            let business = business\<lparr>bankruptcyRisk := min 1 (daysSinceProfit business / 30)\<rparr>;
            Some (updateBusinessEmployment business building agents)
          })"

definition updateBusinesses ::
  "Building list \<Rightarrow> Agent list \<Rightarrow> real \<Rightarrow> EconomicEngine \<Rightarrow> EconomicEngine option" where
  "updateBusinesses buildings agents deltaTime e = do {
     bs \<leftarrow> forEach (updateBusiness e buildings agents deltaTime) (businesses e);
     Some (e\<lparr>businesses := bs\<rparr>)
   }"

subsection \<open>Trade goods\<close>

text \<open>
  The body of the \<open>forEach\<close> of \<open>updateTradeGoods\<close>, for one good; \<open>r\<close> is the value of
  \<open>Math.random()\<close> in this round.
\<close>

definition updateTradeGood :: "EconomicEngine \<Rightarrow> real \<Rightarrow> TradeGood \<Rightarrow> TradeGood option" where
  "updateTradeGood e r good = do {
     let good =
       (if good_type good = ManufacturedGoods
        then (let industrialOutput =
                    fold (\<lambda>b sum. sum + efficiency b)
                      (filter (\<lambda>b. js_includes (business_type b) ''manufacturing'' \<and> isOperational b)
                         (businesses e))
                      0
              in good\<lparr>good_supply := max 50 (80 + industrialOutput * 10)\<rparr>)
        else good);
     let populationFactor = wealth_low (economicData e) * (5 / 10)
                          + wealth_medium (economicData e) * 1
                          + wealth_high (economicData e) * (15 / 10);
     let good = good\<lparr>good_demand := max 20 (populationFactor + r * 20 - 10)\<rparr>;
     supplyDemandRatio \<leftarrow> js_div (good_supply good) (max 1 (good_demand good));
     let priceMultiplier = max (1 / 2) (min 2 (2 - supplyDemandRatio));
     Some (good\<lparr>currentPrice := js_round (basePrice good * priceMultiplier)\<rparr>)
   }"

text \<open>The rounds of the loop: round \<open>i\<close> draws \<open>rnd i\<close>.\<close>

fun updateGoodsFrom ::
  "EconomicEngine \<Rightarrow> (nat \<Rightarrow> real) \<Rightarrow> nat \<Rightarrow> (string \<times> TradeGood) list
     \<Rightarrow> (string \<times> TradeGood) list option" where
  "updateGoodsFrom e rnd i [] = Some []"
| "updateGoodsFrom e rnd i ((key, good) # goods) = do {
     good' \<leftarrow> updateTradeGood e (rnd i) good;
     goods' \<leftarrow> updateGoodsFrom e rnd (Suc i) goods;
     Some ((key, good') # goods')
   }"

definition updateTradeGoods :: "(nat \<Rightarrow> real) \<Rightarrow> EconomicEngine \<Rightarrow> EconomicEngine option" where
  "updateTradeGoods rnd e = do {
     goods \<leftarrow> updateGoodsFrom e rnd 0 (tradeGoods e);
     Some (e\<lparr>tradeGoods := goods\<rparr>)
   }"

subsection \<open>Taxes, indicators, loans, rating\<close>

definition getTaxRate :: "EconomicEngine \<Rightarrow> ZoneType \<Rightarrow> real" where
  "getTaxRate e zone =
     js_or (case zone of
              Residential \<Rightarrow> residentialTaxRate (economicData e)
            | Commercial \<Rightarrow> commercialTaxRate (economicData e)
            | Industrial \<Rightarrow> industrialTaxRate (economicData e)
            | Office \<Rightarrow> officeTaxRate (economicData e)) 10"

definition propertyTax :: "EconomicEngine \<Rightarrow> Building \<Rightarrow> real \<Rightarrow> real" where
  "propertyTax e building totalRevenue =
     (case zoneType building of
        None \<Rightarrow> totalRevenue
      | Some zone \<Rightarrow>
          if status building = Operational
          then (let taxRate = getTaxRate e zone / 100;
                    taxableValue = property_value building;
                    monthlyTax = taxableValue * taxRate / 12
                in totalRevenue + monthlyTax / 30)
          else totalRevenue)"

definition businessTax :: "Business \<Rightarrow> real \<Rightarrow> real" where
  "businessTax business totalRevenue =
     (case profit business of
        None \<Rightarrow> totalRevenue
      | Some p \<Rightarrow>
          if isOperational business \<and> p > 0 then totalRevenue + p * (25 / 100)
          else totalRevenue)"

definition updateTaxation :: "Building list \<Rightarrow> EconomicEngine \<Rightarrow> EconomicEngine" where
  "updateTaxation buildings e =
     (let totalRevenue = fold (propertyTax e) buildings 0;
          totalRevenue = fold businessTax (businesses e) totalRevenue
      in e\<lparr>economicData := (economicData e)\<lparr>totalTaxRevenue := totalRevenue,
                                             income := totalRevenue\<rparr>\<rparr>)"

definition operationalRevenue :: "Business list \<Rightarrow> real option" where
  "operationalRevenue bs =
     fold (\<lambda>business sum. nan_add sum (if isOperational business then revenue business else Some 0))
       bs (Some 0)"

definition updateEconomicIndicators :: "real \<Rightarrow> EconomicEngine \<Rightarrow> EconomicEngine" where
  "updateEconomicIndicators r e =
     (let e = e\<lparr>inflationRate := inflationRate e + (r - 1 / 2) * (1 / 1000)\<rparr>;
          e = e\<lparr>inflationRate := max 0 (min (1 / 10) (inflationRate e))\<rparr>;
          totalWealth =
            fold (\<lambda>b sum. nan_add sum (map_option (max 0) (profit b))) (businesses e) (Some 0)
      in case totalWealth of
           None \<Rightarrow> e
         | Some totalWealth \<Rightarrow>
             if totalWealth > 0
             then (let ed = economicData e;
                       ed = ed\<lparr>wealth_low := max 30 (60 - totalWealth * (1 / 100))\<rparr>;
                       ed = ed\<lparr>wealth_high := min 30 (10 + totalWealth * (5 / 1000))\<rparr>;
                       ed = ed\<lparr>wealth_medium := 100 - wealth_low ed - wealth_high ed\<rparr>
                   in e\<lparr>economicData := ed\<rparr>)
             else e)"

definition updateLoansAndInterest :: "real \<Rightarrow> EconomicEngine \<Rightarrow> EconomicEngine" where
  "updateLoansAndInterest deltaTime e =
     (let ed = economicData e
      in if totalLoans ed > 0
         then (let dailyInterest = (totalLoans ed * interestRate e) / 365;
                   ed = ed\<lparr>expenses := expenses ed + dailyInterest * deltaTime\<rparr>;
                   ed = ed\<lparr>netIncome := income ed - expenses ed\<rparr>
               in e\<lparr>economicData := ed\<rparr>)
         else e)"

definition updateCityRating :: "EconomicEngine \<Rightarrow> EconomicEngine option" where
  "updateCityRating e = do {
     let ed = economicData e;
     let financialHealth = max 0 (min 1 (funds ed / 100000));
     economicGrowth \<leftarrow>
       js_div (real (length (filter (\<lambda>b. isOperational b \<and> nan_gt (profit b) 0) (businesses e))))
         (max 1 (real (length (businesses e))));
     debtRatio \<leftarrow> js_div (totalLoans ed) (max 1 (funds ed));
     let score = (financialHealth * (4 / 10) + economicGrowth * (4 / 10)
                   - min 1 debtRatio * (2 / 10)) * 100;
     let rating = (if score \<ge> 80 then 100 else if score \<ge> 60 then 80
                   else if score \<ge> 40 then 60 else 40);
     Some (e\<lparr>economicData := ed\<lparr>creditRating := rating\<rparr>\<rparr>)
   }"

subsection \<open>The report\<close>

definition cityRatings :: "string list" where
  "cityRatings = [''AAA'', ''AA'', ''A'', ''BBB'', ''BB'', ''B'', ''CCC'']"

definition exportValue :: "(string \<times> TradeGood) list \<Rightarrow> real" where
  "exportValue goods =
     fold (\<lambda>good sum. sum + (if \<not> imported good then good_supply good * currentPrice good else 0))
       (map snd goods) 0"

definition importValue :: "(string \<times> TradeGood) list \<Rightarrow> real" where
  "importValue goods =
     fold (\<lambda>good sum. sum + (if imported good then good_demand good * currentPrice good else 0))
       (map snd goods) 0"

definition generateEconomicReport ::
  "Building list \<Rightarrow> Agent list \<Rightarrow> EconomicEngine \<Rightarrow> EconomicReport option" where
  "generateEconomicReport buildings agents e = do {
     let population = real (length (filter (\<lambda>a. agent_type a = Citizen) agents));
     let employedPopulation =
       real (length (filter (\<lambda>a. agent_type a = Citizen \<and> employment a = Employed) agents));
     unemp \<leftarrow> (if population > 0
               then map_option (\<lambda>q. q * 100) (js_div (population - employedPopulation) population)
               else Some 0);
     let g = nan_mul (operationalRevenue (businesses e)) (Some 365);
     let balance = exportValue (tradeGoods e) - importValue (tradeGoods e);
     let ratingIndex =
       \<lfloor>(creditRating (economicData e) / 100) * (real (length cityRatings) - 1)\<rfloor>;
     let rating = (if 0 \<le> ratingIndex \<and> ratingIndex < int (length cityRatings)
                   then cityRatings ! nat ratingIndex else ''CCC'');
     Some \<lparr>gdp = g, unemployment = unemp, inflation = inflationRate e * 100,
           tradeBalance = balance, governmentRevenue = income (economicData e),
           governmentExpenses = expenses (economicData e), cityRating = rating\<rparr>
   }"

subsection \<open>One update of the economy\<close>

text \<open>
  \<open>rnd i\<close> is the value of the \<open>i\<close>-th call of \<open>Math.random()\<close> in the update: one call for
  each trade good, then one in \<open>updateEconomicIndicators\<close>.
\<close>

definition updateEconomy ::
  "real \<Rightarrow> Building list \<Rightarrow> Agent list \<Rightarrow> (nat \<Rightarrow> real) \<Rightarrow> EconomicEngine
     \<Rightarrow> (EconomicEngine \<times> EconomicReport) option" where
  "updateEconomy deltaTime buildings agents rnd e = do {
     e \<leftarrow> updateMarketConditions buildings agents e;
     e \<leftarrow> updateBusinesses buildings agents deltaTime e;
     e \<leftarrow> updateTradeGoods rnd e;
     let e = updateTaxation buildings e;
     let e = updateEconomicIndicators (rnd (length (tradeGoods e))) e;
     let e = updateLoansAndInterest deltaTime e;
     e \<leftarrow> updateCityRating e;
     report \<leftarrow> generateEconomicReport buildings agents e;
     Some (e, report)
   }"

subsection \<open>An engine and a world to run it on\<close>

definition exData :: EconomicData where
  "exData = \<lparr>funds = 100000, income = 0, expenses = 0, netIncome = 0, residentialTaxRate = 12,
     commercialTaxRate = 15, industrialTaxRate = 10, officeTaxRate = 14, totalTaxRevenue = 0,
     totalLoans = 0, creditRating = 80, cityLevel = 1, wealth_low = 60, wealth_medium = 30,
     wealth_high = 10, demandByZone = (\<lambda>zone wealth. 1), supplyByZone = (\<lambda>zone wealth. 0)\<rparr>"

definition exShop :: Business where
  "exShop = \<lparr>business_id = ''shop'', business_type = ''retail_store'', buildingId = ''b1'',
     accessibility = 0, footTraffic = 0, prestige = 0, revenue = Some 0,
     operatingCosts = Some 0, profit = Some 5, rent = 100, employees = 0, maxEmployees = 4,
     wagesPerEmployee = 3000, efficiency = 1, customerSatisfaction = Some 1,
     isOperational = True, daysSinceProfit = 0, bankruptcyRisk = 0\<rparr>"

definition exBuilding :: Building where
  "exBuilding = \<lparr>building_id = ''b1'', building_position = \<lparr>vx = 0, vy = 0, vz = 0\<rparr>,
     zoneType = Some Commercial, wealthLevel = Medium, building_level = 1, status = Operational,
     constructionProgress = Num 1, capacity = 10, property_value = 50000\<rparr>"

definition exEngine :: EconomicEngine where
  "exEngine = (newEconomicEngine exData)\<lparr>businesses := [exShop]\<rparr>"

text \<open>The same shop with a type that is the name of a member of \<open>Object.prototype\<close>.\<close>

definition exOddShop :: Business where
  "exOddShop = exShop\<lparr>business_type := ''constructor''\<rparr>"

definition exOddEngine :: EconomicEngine where
  "exOddEngine = (newEconomicEngine exData)\<lparr>businesses := [exOddShop]\<rparr>"

subsection \<open>The businesses a claim speaks about\<close>

text \<open>The building that a business refers to exists in the list and is operational.\<close>

definition operationalBuilding :: "Building list \<Rightarrow> Business \<Rightarrow> bool" where
  "operationalBuilding buildings business =
     (case find (\<lambda>b. building_id b = buildingId business) buildings of
        None \<Rightarrow> False
      | Some building \<Rightarrow> status building = Operational)"

text \<open>The test \<open>profit == revenue - operatingCosts\<close> on a business.\<close>

definition profitIsDifference :: "Business \<Rightarrow> bool" where
  "profitIsDifference b = nan_eq (profit b) (nan_sub (revenue b) (operatingCosts b))"

subsection \<open>The price rule, stated on a trade good\<close>

text \<open>
  \<open>clamp(2 - supply / demand, 0.5, 2.0)\<close> of a good; \<open>exRnd\<close> is a random source that always
  draws \<open>1/2\<close>, and \<open>exFoodAfter\<close> the good \<open>food\<close> after one pass over a new engine.
\<close>


definition priceMultiplierOf :: "TradeGood \<Rightarrow> real" where
  "priceMultiplierOf g = max (1 / 2) (min 2 (2 - good_supply g / good_demand g))"

definition exRnd :: "nat \<Rightarrow> real" where
  "exRnd i = 1 / 2"

definition exFoodAfter :: TradeGood where
  "exFoodAfter =
     the (map_get (tradeGoods (the (updateTradeGoods exRnd (newEconomicEngine exData)))) ''food'')"

text \<open>The report of one update of a new engine in the empty world.\<close>


definition exReport :: EconomicReport where
  "exReport = snd (the (updateEconomy 1 [] [] exRnd (newEconomicEngine exData)))"

text \<open>A good of the catalogue after one pass over a new engine with the source \<open>exRnd\<close>.\<close>

definition exGoodAfter :: "string \<Rightarrow> TradeGoodType \<Rightarrow> real \<Rightarrow> real \<Rightarrow> real \<Rightarrow> string \<times> TradeGood" where
  "exGoodAfter i t p s c =
     (i, \<lparr>good_id = i, good_type = t, basePrice = p, currentPrice = c, good_demand = 75,
          good_supply = s, quality = 1, imported = True\<rparr>)"

section \<open>PathfindingSystem\<close>

text \<open>
  The grid \<open>grid.nodes[x][y]\<close> is a partial map from pairs of indices to nodes. An index is a
  number of the language, so a pair with an index that is not a whole number of the range, or
  is \<open>NaN\<close>, has no node. The search mutates the nodes and compares them by identity; a node is
  named by the pair of indices under which the grid holds it. The keys \<open>`${x},${y}`\<close> of
  \<open>obstacles\<close> and \<open>roads\<close> are pairs of numbers in the same way. \<open>gCost\<close> and \<open>fCost\<close> may
  be \<open>Infinity\<close>.
\<close>

type_synonym NodeRef = "jsnum \<times> jsnum"

record PathfindingNode =
  node_position :: Vector3
  gCost :: jsnum
  hCost :: real
  fCost :: jsnum
  parent :: "NodeRef option"
  isWalkable :: bool

record PathfindingSystem =
  nodes :: "NodeRef \<Rightarrow> PathfindingNode option"
  grid_width :: int
  grid_height :: int
  grid_cellSize :: real
  obstacles :: "NodeRef list"
  roads :: "NodeRef list"

text \<open>The indices of the loops \<open>for x < width\<close>, \<open>for y < height\<close>, in the order of the loops.\<close>

definition gridKeys :: "PathfindingSystem \<Rightarrow> NodeRef list" where
  "gridKeys ps =
     map (\<lambda>(x, y). (Num (of_int x), Num (of_int y)))
       (List.product [0 .. grid_width ps - 1] [0 .. grid_height ps - 1])"

text \<open>
  The constructor. The width is \<open>Math.ceil(worldSize / cellSize)\<close>; for a cell size of 0 it is
  not a finite number, and the constructor does not return (for a positive world size) or
  builds a grid without nodes whose width is \<open>NaN\<close> or \<open>-Infinity\<close>: the result is \<open>None\<close>.
\<close>

definition newNode :: "real \<Rightarrow> real \<Rightarrow> real \<Rightarrow> real \<Rightarrow> PathfindingNode" where
  "newNode worldSize cs x y =
     (let halfSize = worldSize / 2;
          worldX = - halfSize + (x + 1 / 2) * cs;
          worldZ = - halfSize + (y + 1 / 2) * cs
      in \<lparr>node_position = \<lparr>vx = worldX, vy = 0, vz = worldZ\<rparr>, gCost = Num 0, hCost = 0,
          fCost = Num 0, parent = None, isWalkable = True\<rparr>)"

definition newPathfindingSystem :: "real \<Rightarrow> real \<Rightarrow> PathfindingSystem option" where
  "newPathfindingSystem worldSize cs =
     (case js_ceil (js_divide (Num worldSize) (Num cs)) of
        Num n \<Rightarrow>
          Some \<lparr>nodes = (\<lambda>k. case k of
                   (Num x, Num y) \<Rightarrow>
                     if x = of_int \<lfloor>x\<rfloor> \<and> 0 \<le> x \<and> x < n \<and> y = of_int \<lfloor>y\<rfloor> \<and> 0 \<le> y \<and> y < n
                     then Some (newNode worldSize cs x y) else None
                 | _ \<Rightarrow> None),
               grid_width = \<lfloor>n\<rfloor>, grid_height = \<lfloor>n\<rfloor>, grid_cellSize = cs,
               obstacles = [], roads = []\<rparr>
      | _ \<Rightarrow> None)"

subsection \<open>Positions\<close>

definition worldToGrid :: "PathfindingSystem \<Rightarrow> Vector3 \<Rightarrow> jsnum \<times> jsnum" where
  "worldToGrid ps worldPos =
     (let halfWidth = (real_of_int (grid_width ps) * grid_cellSize ps) / 2;
          halfHeight = (real_of_int (grid_height ps) * grid_cellSize ps) / 2;
          x = js_floor (js_divide (Num (vx worldPos + halfWidth)) (Num (grid_cellSize ps)));
          z = js_floor (js_divide (Num (vz worldPos + halfHeight)) (Num (grid_cellSize ps)))
      in (js_max (Num 0) (js_min (Num (real_of_int (grid_width ps) - 1)) x),
          js_max (Num 0) (js_min (Num (real_of_int (grid_height ps) - 1)) z)))"

definition isValidGridPosition :: "PathfindingSystem \<Rightarrow> jsnum \<Rightarrow> jsnum \<Rightarrow> bool" where
  "isValidGridPosition ps x y =
     (js_ge x (Num 0) \<and> js_lt x (Num (real_of_int (grid_width ps)))
      \<and> js_ge y (Num 0) \<and> js_lt y (Num (real_of_int (grid_height ps))))"

text \<open>\<open>THREE.Vector3.lerpVectors\<close>.\<close>

definition lerpVectors :: "Vector3 \<Rightarrow> Vector3 \<Rightarrow> real \<Rightarrow> Vector3" where
  "lerpVectors v1 v2 alpha =
     \<lparr>vx = vx v1 + (vx v2 - vx v1) * alpha, vy = vy v1 + (vy v2 - vy v1) * alpha,
      vz = vz v1 + (vz v2 - vz v1) * alpha\<rparr>"

definition generateDirectPath :: "Vector3 \<Rightarrow> Vector3 \<Rightarrow> Vector3 list" where
  "generateDirectPath startPos endPos =
     (let distance = distanceTo startPos endPos;
          segments = max 2 \<lfloor>distance / 5\<rfloor>
      in map (\<lambda>i. (lerpVectors startPos endPos (real_of_int i / real_of_int segments))\<lparr>vy := 1 / 2\<rparr>)
           [0 .. segments])"

subsection \<open>The search\<close>

definition neighborOffsets :: "(real \<times> real) list" where
  "neighborOffsets = [(- 1, 0), (1, 0), (0, - 1), (0, 1), (- 1, - 1), (1, - 1), (- 1, 1), (1, 1)]"

text \<open>
  The positions around a position that are valid, in the order of the offsets.
\<close>

definition positionsAround :: "PathfindingSystem \<Rightarrow> jsnum \<times> jsnum \<Rightarrow> NodeRef list" where
  "positionsAround ps gridPos =
     (case gridPos of (gx, gy) \<Rightarrow>
        filter (\<lambda>(neighborX, neighborY). isValidGridPosition ps neighborX neighborY)
          (map (\<lambda>(ox, oy). (js_add gx (Num ox), js_add gy (Num oy))) neighborOffsets))"

text \<open>
  \<open>getNeighbors\<close> gives the places \<open>grid.nodes[neighborX][neighborY]\<close> that it reads; a place
  without a node is found when the search reads a field of the neighbour.
\<close>

definition getNeighbors :: "PathfindingSystem \<Rightarrow> PathfindingNode \<Rightarrow> NodeRef list" where
  "getNeighbors ps node = positionsAround ps (worldToGrid ps (node_position node))"

definition calculateHeuristic :: "PathfindingNode \<Rightarrow> PathfindingNode \<Rightarrow> real" where
  "calculateHeuristic nodeA nodeB =
     (let dx = \<bar>vx (node_position nodeA) - vx (node_position nodeB)\<bar>;
          dz = \<bar>vz (node_position nodeA) - vz (node_position nodeB)\<bar>
      in max dx dz + (sqrt 2 - 1) * min dx dz)"

definition calculateDistance :: "PathfindingSystem \<Rightarrow> PathfindingNode \<Rightarrow> PathfindingNode \<Rightarrow> real" where
  "calculateDistance ps nodeA nodeB =
     (let dx = \<bar>vx (node_position nodeA) - vx (node_position nodeB)\<bar>;
          dz = \<bar>vz (node_position nodeA) - vz (node_position nodeB)\<bar>;
          nodeKey = worldToGrid ps (node_position nodeB);
          isRoad = (nodeKey \<in> set (roads ps));
          roadBonus = (if isRoad then 1 / 2 else 1)
      in sqrt (dx * dx + dz * dz) * roadBonus)"

text \<open>
  The functions of the search give \<open>None\<close> when the source throws a \<open>TypeError\<close>, which it
  does when it reads a field of a node that the grid does not have, and when the source does
  not return.
\<close>

text \<open>The scan of \<open>openSet\<close> for the node of lowest \<open>fCost\<close>, from index \<open>i\<close> on.\<close>

fun lowestFrom ::
  "(NodeRef \<Rightarrow> PathfindingNode option) \<Rightarrow> NodeRef list \<Rightarrow> nat \<Rightarrow> NodeRef \<times> nat
     \<Rightarrow> (NodeRef \<times> nat) option" where
  "lowestFrom store [] i current = Some current"
| "lowestFrom store (r # rs) i (currentRef, currentIndex) = do {
     node \<leftarrow> store r;
     currentNode \<leftarrow> store currentRef;
     lowestFrom store rs (Suc i)
       (if js_lt (fCost node) (fCost currentNode)
           \<or> (js_eq (fCost node) (fCost currentNode) \<and> hCost node < hCost currentNode)
        then (r, i) else (currentRef, currentIndex))
   }"

definition lowestCost ::
  "(NodeRef \<Rightarrow> PathfindingNode option) \<Rightarrow> NodeRef list \<Rightarrow> (NodeRef \<times> nat) option" where
  "lowestCost store openSet =
     (case openSet of [] \<Rightarrow> None | r # rs \<Rightarrow> lowestFrom store rs 1 (r, 0))"

text \<open>\<open>reconstructPath\<close>: the loop follows the parents.\<close>

partial_function (option) reconstructFrom ::
  "(NodeRef \<Rightarrow> PathfindingNode option) \<Rightarrow> NodeRef option \<Rightarrow> Vector3 list
     \<Rightarrow> Vector3 list option" where
  "reconstructFrom store currentNode path =
     (case currentNode of
        None \<Rightarrow> Some path
      | Some r \<Rightarrow> do {
          node \<leftarrow> store r;
          reconstructFrom store (parent node) (node_position node # path)
        })"

definition reconstructPath ::
  "(NodeRef \<Rightarrow> PathfindingNode option) \<Rightarrow> NodeRef \<Rightarrow> Vector3 list option" where
  "reconstructPath store endRef = reconstructFrom store (Some endRef) []"

text \<open>The body of the loop over the neighbours, for one neighbour.\<close>

definition visitNeighbor ::
  "NodeRef \<Rightarrow> NodeRef \<Rightarrow> NodeRef list \<Rightarrow> NodeRef
     \<Rightarrow> PathfindingSystem \<times> NodeRef list \<Rightarrow> (PathfindingSystem \<times> NodeRef list) option" where
  "visitNeighbor currentRef endRef closedSet neighborRef st =
     (case st of (ps, openSet) \<Rightarrow> do {
        neighbor \<leftarrow> nodes ps neighborRef;
        if \<not> isWalkable neighbor \<or> neighborRef \<in> set closedSet then Some (ps, openSet)
        else do {
          currentNode \<leftarrow> nodes ps currentRef;
          endNode \<leftarrow> nodes ps endRef;
          let tentativeGCost =
            js_add (gCost currentNode) (Num (calculateDistance ps currentNode neighbor));
          let h = calculateHeuristic neighbor endNode;
          let updated = ps\<lparr>nodes := (nodes ps)(neighborRef \<mapsto>
                neighbor\<lparr>parent := Some currentRef, gCost := tentativeGCost, hCost := h,
                          fCost := js_add tentativeGCost (Num h)\<rparr>)\<rparr>;
          if neighborRef \<notin> set openSet then Some (updated, openSet @ [neighborRef])
          else if js_ge tentativeGCost (gCost neighbor) then Some (ps, openSet)
          else Some (updated, openSet)
        }
      })"

fun visitNeighbors ::
  "NodeRef \<Rightarrow> NodeRef \<Rightarrow> NodeRef list \<Rightarrow> NodeRef list
     \<Rightarrow> PathfindingSystem \<times> NodeRef list \<Rightarrow> (PathfindingSystem \<times> NodeRef list) option" where
  "visitNeighbors currentRef endRef closedSet [] st = Some st"
| "visitNeighbors currentRef endRef closedSet (neighborRef # rs) st = do {
     st \<leftarrow> visitNeighbor currentRef endRef closedSet neighborRef st;
     visitNeighbors currentRef endRef closedSet rs st
   }"

text \<open>The \<open>while\<close> loop of \<open>aStarSearch\<close>.\<close>

partial_function (option) aStarLoop ::
  "NodeRef \<Rightarrow> PathfindingSystem \<times> NodeRef list \<times> NodeRef list \<Rightarrow> Vector3 list option" where
  "aStarLoop endRef st =
     (case st of (ps, openSet, closedSet) \<Rightarrow>
        if openSet = [] then Some []
        else do {
          (currentRef, currentIndex) \<leftarrow> lowestCost (nodes ps) openSet;
          let openSet = take currentIndex openSet @ drop (Suc currentIndex) openSet;
          let closedSet = set_add currentRef closedSet;
          if currentRef = endRef then reconstructPath (nodes ps) endRef
          else do {
            currentNode \<leftarrow> nodes ps currentRef;
            (ps, openSet) \<leftarrow>
              visitNeighbors currentRef endRef closedSet (getNeighbors ps currentNode)
                (ps, openSet);
            aStarLoop endRef (ps, openSet, closedSet)
          }
        })"

text \<open>The reset of the costs, over all places of the grid.\<close>

fun resetNodes ::
  "NodeRef list \<Rightarrow> (NodeRef \<Rightarrow> PathfindingNode option) \<Rightarrow> (NodeRef \<Rightarrow> PathfindingNode option) option" where
  "resetNodes [] store = Some store"
| "resetNodes (k # ks) store = do {
     node \<leftarrow> store k;
     resetNodes ks (store(k \<mapsto> node\<lparr>gCost := PosInf, hCost := 0, fCost := Num 0, parent := None\<rparr>))
   }"

definition aStarSearch :: "PathfindingSystem \<Rightarrow> NodeRef \<Rightarrow> NodeRef \<Rightarrow> Vector3 list option" where
  "aStarSearch ps startRef endRef = do {
     store \<leftarrow> resetNodes (gridKeys ps) (nodes ps);
     startNode \<leftarrow> store startRef;
     endNode \<leftarrow> store endRef;
     let h = calculateHeuristic startNode endNode;
     let startNode = startNode\<lparr>gCost := Num 0, hCost := h, fCost := js_add (Num 0) (Num h)\<rparr>;
     aStarLoop endRef (ps\<lparr>nodes := store(startRef \<mapsto> startNode)\<rparr>, [startRef], [])
   }"

subsection \<open>Smoothing\<close>

text \<open>One round of the loop of \<open>hasLineOfSight\<close>: the point is in the grid and is no obstacle.\<close>

definition clearAt :: "PathfindingSystem \<Rightarrow> Vector3 \<Rightarrow> bool" where
  "clearAt ps point =
     (let gridPos = worldToGrid ps point
      in isValidGridPosition ps (fst gridPos) (snd gridPos) \<and> gridPos \<notin> set (obstacles ps))"

text \<open>
  \<open>hasLineOfSight\<close>, by the value of \<open>steps = Math.ceil(distance / (cellSize / 2))\<close>. For a
  number of steps that is 0, \<open>t = 0 / 0\<close> is \<open>NaN\<close> in the first round, the point and its grid
  position are \<open>NaN\<close>, and the result is \<open>false\<close>. For a negative number or \<open>NaN\<close> the loop has
  no round. For \<open>Infinity\<close>, \<open>t = i / steps\<close> is 0 in every round and the point is \<open>start\<close>: the
  loop returns \<open>false\<close> in the first round or does not end.
\<close>

definition hasLineOfSight :: "PathfindingSystem \<Rightarrow> Vector3 \<Rightarrow> Vector3 \<Rightarrow> bool option" where
  "hasLineOfSight ps startPos endPos =
     (let distance = distanceTo startPos endPos
      in case js_ceil (js_divide (Num distance) (Num (grid_cellSize ps / 2))) of
           Num steps \<Rightarrow>
             if steps = 0 then Some False
             else Some (list_all (\<lambda>i. clearAt ps (lerpVectors startPos endPos (real_of_int i / steps)))
                          [0 .. \<lfloor>steps\<rfloor>])
         | NaN \<Rightarrow> Some True
         | NegInf \<Rightarrow> Some True
         | PosInf \<Rightarrow> if clearAt ps startPos then None else Some False)"

text \<open>The inner loop of \<open>smoothPath\<close>: the farthest point in direct sight, from index \<open>i\<close> on.\<close>

function farthestVisible ::
  "PathfindingSystem \<Rightarrow> Vector3 list \<Rightarrow> nat \<Rightarrow> nat \<Rightarrow> nat \<Rightarrow> nat option" where
  "farthestVisible ps path currentIndex i farthestIndex =
     (if i < length path
      then do {
        sight \<leftarrow> hasLineOfSight ps (path ! currentIndex) (path ! i);
        if sight then farthestVisible ps path currentIndex (Suc i) i else Some farthestIndex
      }
      else Some farthestIndex)"
  by pat_completeness auto
termination
  by (relation "measure (\<lambda>(ps, path, currentIndex, i, farthestIndex). length path - i)") auto

declare farthestVisible.simps [simp del]

partial_function (option) smoothFrom ::
  "PathfindingSystem \<Rightarrow> Vector3 list \<Rightarrow> nat \<Rightarrow> Vector3 list \<Rightarrow> Vector3 list option" where
  "smoothFrom ps path currentIndex smoothed =
     (if Suc currentIndex < length path
      then do {
        farthestIndex \<leftarrow> farthestVisible ps path currentIndex (currentIndex + 2) (currentIndex + 1);
        smoothFrom ps path farthestIndex (smoothed @ [path ! farthestIndex])
      }
      else Some smoothed)"

definition smoothPath :: "PathfindingSystem \<Rightarrow> Vector3 list \<Rightarrow> Vector3 list option" where
  "smoothPath ps path =
     (if length path \<le> 2 then Some path else smoothFrom ps path 0 [path ! 0])"

subsection \<open>\<open>findPath\<close>\<close>

text \<open>\<open>findPath\<close> after the test of the two grid positions.\<close>

definition searchBetween ::
  "PathfindingSystem \<Rightarrow> NodeRef \<Rightarrow> NodeRef \<Rightarrow> Vector3 \<Rightarrow> Vector3 \<Rightarrow> Vector3 list option" where
  "searchBetween ps startGrid endGrid startPos endPos = do {
     startNode \<leftarrow> nodes ps startGrid;
     if \<not> isWalkable startNode then Some (generateDirectPath startPos endPos)
     else do {
       endNode \<leftarrow> nodes ps endGrid;
       if \<not> isWalkable endNode then Some (generateDirectPath startPos endPos)
       else do {
         path \<leftarrow> aStarSearch ps startGrid endGrid;
         if length path = 0 then Some (generateDirectPath startPos endPos)
         else smoothPath ps path
       }
     }
   }"

definition findPath :: "PathfindingSystem \<Rightarrow> Vector3 \<Rightarrow> Vector3 \<Rightarrow> Vector3 list option" where
  "findPath ps startPos endPos =
     (let startGrid = worldToGrid ps startPos;
          endGrid = worldToGrid ps endPos
      in if \<not> isValidGridPosition ps (fst startGrid) (snd startGrid)
            \<or> \<not> isValidGridPosition ps (fst endGrid) (snd endGrid)
         then Some (generateDirectPath startPos endPos)
         else searchBetween ps startGrid endGrid startPos endPos)"

subsection \<open>The states of a system, and the paths of the grid\<close>


text \<open>
  A grid path leads from a cell to a cell by steps to one of the up to eight cells around a
  cell that is walkable.
\<close>

definition walkableCell :: "PathfindingSystem \<Rightarrow> NodeRef \<Rightarrow> bool" where
  "walkableCell ps k = (case nodes ps k of None \<Rightarrow> False | Some node \<Rightarrow> isWalkable node)"

inductive gridPath :: "PathfindingSystem \<Rightarrow> NodeRef \<Rightarrow> NodeRef \<Rightarrow> bool"
  for ps :: PathfindingSystem and a :: NodeRef where
  here: "gridPath ps a a"
| step: "gridPath ps a b \<Longrightarrow> c \<in> set (positionsAround ps b) \<Longrightarrow> walkableCell ps c \<Longrightarrow> gridPath ps a c"

subsection \<open>Notions for the properties of the search\<close>

text \<open>
  The index that \<open>worldToGrid\<close> gives a coordinate \<open>v\<close> when the cell size is not 0:
  \<open>floor((v + n * cellSize / 2) / cellSize)\<close>, clamped to \<open>0 .. n - 1\<close>.
\<close>

definition cellIndex :: "int \<Rightarrow> real \<Rightarrow> real \<Rightarrow> int" where
  "cellIndex n cs v = max 0 (min (n - 1) \<lfloor>(v + real_of_int n * cs / 2) / cs\<rfloor>)"


text \<open>
  What a search leaves as it is: the dimensions of the grid, the roads and the obstacles, and
  the position and the walkability of every node.
\<close>

definition staticPart :: "PathfindingNode \<Rightarrow> Vector3 \<times> bool" where
  "staticPart node = (node_position node, isWalkable node)"

definition staticSame :: "PathfindingSystem \<Rightarrow> PathfindingSystem \<Rightarrow> bool" where
  "staticSame ps0 ps =
     (grid_width ps = grid_width ps0 \<and> grid_height ps = grid_height ps0
      \<and> grid_cellSize ps = grid_cellSize ps0 \<and> roads ps = roads ps0
      \<and> obstacles ps = obstacles ps0
      \<and> (\<forall>k. map_option staticPart (nodes ps k) = map_option staticPart (nodes ps0 k)))"



subsection \<open>Two systems\<close>

text \<open>
  The system of \<open>new PathfindingSystem(0, 1)\<close>, which has no cell, and the system of
  \<open>new PathfindingSystem(3, 1)\<close> after the three cells of the middle column have become
  obstacles; three positions, the last one outside the world.
\<close>

definition exEmptyGrid :: PathfindingSystem where
  "exEmptyGrid = \<lparr>nodes = (\<lambda>k. None), grid_width = 0, grid_height = 0, grid_cellSize = 1,
     obstacles = [], roads = []\<rparr>"

definition exGrid :: PathfindingSystem where
  "exGrid =
     \<lparr>nodes = (\<lambda>k. case k of
          (Num x, Num y) \<Rightarrow>
            if x = of_int \<lfloor>x\<rfloor> \<and> 0 \<le> x \<and> x < 3 \<and> y = of_int \<lfloor>y\<rfloor> \<and> 0 \<le> y \<and> y < 3
            then Some ((newNode 3 1 x y)\<lparr>isWalkable := (x \<noteq> 1)\<rparr>) else None
        | _ \<Rightarrow> None),
      grid_width = 3, grid_height = 3, grid_cellSize = 1,
      obstacles = [(Num 1, Num 0), (Num 1, Num 1), (Num 1, Num 2)], roads = []\<rparr>"

definition exWest :: Vector3 where "exWest = \<lparr>vx = - 1, vy = 0, vz = 0\<rparr>"

definition exEast :: Vector3 where "exEast = \<lparr>vx = 1, vy = 0, vz = 0\<rparr>"

definition exFarWest :: Vector3 where "exFarWest = \<lparr>vx = - 10, vy = 0, vz = 0\<rparr>"

(*PROPERTIES*)

section \<open>Properties of the terrain field\<close>

lemma map_get_map_set:
  "map_get (map_set k v m) k' = (if k' = k then Some v else map_get m k')"
  by (induction m) (auto simp: map_get_def)

lemma map_set_keys:
  "fst ` set (map_set k v m) = insert k (fst ` set m)"
  by (induction m) force+

lemma map_set_distinct:
  "distinct (map fst m) \<Longrightarrow> distinct (map fst (map_set k v m))"
  by (induction m) (auto simp: map_set_keys)

lemma js_clamp_unit:
  "js_max (Num 0) (js_min (Num 1) v) = Num x \<Longrightarrow> 0 \<le> x \<and> x \<le> 1"
  by (cases v) auto

lemma cellValues_clamped:
  "\<exists>p n s v. cellValues factors cell = (p, n, s, js_max (Num 0) (js_min (Num 1) v))"
  by (auto simp: cellValues_def Let_def split: prod.split)

text \<open>
  Where the four numbers of a recompute are finite, the stored \<open>currentValue\<close> is in \<open>[0, 1]\<close>.
\<close>

lemma calculateCellValue_range:
  assumes "calculateCellValue factors now cell = Some cell'"
  shows "0 \<le> currentValue cell' \<and> currentValue cell' \<le> 1"
proof -
  obtain p n s v where cv: "cellValues factors cell = (p, n, s, js_max (Num 0) (js_min (Num 1) v))"
    using cellValues_clamped by blast
  from assms cv obtain x where x: "js_max (Num 0) (js_min (Num 1) v) = Num x"
      and c: "currentValue cell' = x"
    by (auto simp: calculateCellValue_def Let_def split: jsnum.splits)
  from js_clamp_unit[OF x] c show ?thesis by simp
qed

lemma exProtectedArea_values: "cellValues [exProtectedArea] exCellA = (Num 0, Num 0, NaN, NaN)"
  by (simp add: cellValues_def factorImpact_def calculateFalloff_def exProtectedArea_def
      protectedAreaFactor_def exCellA_def waterBonus_def js_sub_def Let_def)

text \<open>
  C1. A protected area of radius 0 centred on a cell is a scenic factor of radius 0 at distance
  0 of the cell. \<open>calculateFalloff\<close> divides the distance by the radius, \<open>0 / 0\<close>, which is
  \<open>NaN\<close>; the scenic sum and the value are \<open>NaN\<close>, and \<open>Math.max(0, Math.min(1, NaN))\<close> is
  \<open>NaN\<close>: the \<open>currentValue\<close> that the recompute stores is not in \<open>[0, 1]\<close>, in the single
  recompute, in the full pass and in the incremental pass.
\<close>

theorem terrain_value_not_a_number:
  "cellValues [exProtectedArea] exCellA = (Num 0, Num 0, NaN, NaN)
   \<and> calculateCellValue [exProtectedArea] 0 exCellA = None
   \<and> updateAllTerrainValues 0 exProtectedTerrain = None
   \<and> updateQueuedCells 0 (exProtectedTerrain\<lparr>updateQueue := [(2, 2)]\<rparr>) = None"
proof -
  have c: "calculateCellValue [exProtectedArea] 0 exCellA = None"
    by (simp add: calculateCellValue_def exProtectedArea_values)
  have "updateAllTerrainValues 0 exProtectedTerrain = None"
    by (simp add: updateAllTerrainValues_def exProtectedTerrain_def exTerrain_def c)
  moreover have "updateQueuedCells 0 (exProtectedTerrain\<lparr>updateQueue := [(2, 2)]\<rparr>) = None"
    by (simp add: updateQueuedCells_def exProtectedTerrain_def exTerrain_def map_get_def c)
  ultimately show ?thesis
    using c exProtectedArea_values by simp
qed


section \<open>Properties of the pollution spread\<close>

lemma map_get_None_iff: "map_get m k = None \<longleftrightarrow> k \<notin> fst ` set m"
  by (simp add: map_get_def map_of_eq_None_iff)

lemma addSpread_amount:
  "amountAt (addSpread cs a n m) k
     = amountAt m k + (if getCellKey cs (cell_x n) (cell_z n) = k then a else 0)"
  by (simp add: addSpread_def amountAt_def map_get_map_set Let_def split: option.splits)

lemma addSpread_keys:
  "fst ` set (addSpread cs a n m) = insert (getCellKey cs (cell_x n) (cell_z n)) (fst ` set m)"
  by (simp add: addSpread_def Let_def map_set_keys)

lemma addSpread_distinct:
  "distinct (map fst m) \<Longrightarrow> distinct (map fst (addSpread cs a n m))"
  by (simp add: addSpread_def Let_def map_set_distinct)

lemma fold_addSpread_amount:
  "amountAt (fold (addSpread cs a) ns m) k
     = amountAt m k + real (length (filter (\<lambda>n. getCellKey cs (cell_x n) (cell_z n) = k) ns)) * a"
  by (induction ns arbitrary: m) (simp_all add: addSpread_amount algebra_simps)

lemma fold_addSpread_keys:
  "fst ` set (fold (addSpread cs a) ns m)
     = (\<lambda>n. getCellKey cs (cell_x n) (cell_z n)) ` set ns \<union> fst ` set m"
  by (induction ns arbitrary: m) (auto simp: addSpread_keys)

lemma fold_addSpread_distinct:
  "distinct (map fst m) \<Longrightarrow> distinct (map fst (fold (addSpread cs a) ns m))"
  by (induction ns arbitrary: m) (simp_all add: addSpread_distinct)

lemma donate_distinct:
  "distinct (map fst m) \<Longrightarrow> distinct (map fst (donate ts r cell m))"
  by (simp add: donate_def Let_def fold_addSpread_distinct)

lemma sharesTo_pos:
  "0 < sharesTo ts k d
     \<longleftrightarrow> k \<in> (\<lambda>n. getCellKey (cellSize ts) (cell_x n) (cell_z n))
               ` set (getNeighborCells ts (cell_x d) (cell_z d))"
  by (auto simp: sharesTo_def cellKeyOf_def filter_empty_conv)

lemma donate_amount:
  "amountAt (donate ts r d m) k
     = amountAt m k + (if pollution d > 5 / 100 then real (sharesTo ts k d) * shareOf ts r d else 0)"
  by (simp add: donate_def Let_def fold_addSpread_amount sharesTo_def shareOf_def cellKeyOf_def)

lemma donate_keys:
  "k \<in> fst ` set (donate ts r d m)
     \<longleftrightarrow> k \<in> fst ` set m \<or> (pollution d > 5 / 100 \<and> 0 < sharesTo ts k d)"
  unfolding sharesTo_pos
  by (simp add: donate_def Let_def fold_addSpread_keys) blast

lemma fold_donate_distinct:
  "distinct (map fst m) \<Longrightarrow>
   distinct (map fst (fold (\<lambda>(key, cell). donate ts r cell) cells m))"
  by (induction cells arbitrary: m) (auto simp: donate_distinct)

lemma fold_donate_amount:
  "amountAt (fold (\<lambda>(key, cell). donate ts r cell) cells m) k
     = amountAt m k
       + sum_list (map (\<lambda>d. real (sharesTo ts k d) * shareOf ts r d)
                    (filter (\<lambda>cell. pollution cell > 5 / 100) (map snd cells)))"
proof (induction cells arbitrary: m)
  case Nil
  show ?case by simp
next
  case (Cons e cells)
  obtain key d where e: "e = (key, d)" by (cases e)
  show ?case
    unfolding e using Cons.IH[of "donate ts r d m"] donate_amount[of ts r d m k]
    by simp
qed

lemma fold_donate_keys:
  "k \<in> fst ` set (fold (\<lambda>(key, cell). donate ts r cell) cells m)
     \<longleftrightarrow> k \<in> fst ` set m
         \<or> list_ex (\<lambda>d. 0 < sharesTo ts k d) (filter (\<lambda>cell. pollution cell > 5 / 100) (map snd cells))"
proof (induction cells arbitrary: m)
  case Nil
  show ?case by simp
next
  case (Cons e cells)
  obtain key d where e: "e = (key, d)" by (cases e)
  show ?case
    unfolding e using Cons.IH[of "donate ts r d m"] donate_keys[of k ts r d m]
    by auto
qed

lemma newPollutionMap_distinct: "distinct (map fst (newPollutionMap ts r))"
  by (simp add: newPollutionMap_def fold_donate_distinct)

lemma newPollutionMap_get:
  "map_get (newPollutionMap ts r) k
     = (if receives ts k then Some (received ts r k) else None)"
proof (cases "receives ts k")
  case True
  then have "k \<in> fst ` set (newPollutionMap ts r)"
    unfolding newPollutionMap_def fold_donate_keys receives_def donors_def by simp
  then obtain a where a: "map_get (newPollutionMap ts r) k = Some a"
    using map_get_None_iff[of "newPollutionMap ts r" k] by auto
  have "amountAt (newPollutionMap ts r) k = received ts r k"
    unfolding newPollutionMap_def fold_donate_amount received_def donors_def
    by (simp add: amountAt_def map_get_def)
  with a True show ?thesis by (simp add: amountAt_def)
next
  case False
  then have "k \<notin> fst ` set (newPollutionMap ts r)"
    unfolding newPollutionMap_def fold_donate_keys receives_def donors_def by simp
  with False show ?thesis by (simp add: map_get_None_iff)
qed

lemma applySpread_get:
  "map_get (terrainCells (applySpread (key, a) ts)) k
     = (if k = key then map_option (spreadTo (Some a)) (map_get (terrainCells ts) k)
        else map_get (terrainCells ts) k)"
  by (auto simp: applySpread_def spreadTo_def map_get_map_set split: option.splits)

lemma map_get_Nil: "map_get [] k = None"
  by (simp add: map_get_def)

lemma map_get_Cons: "map_get ((k', v) # m) k = (if k = k' then Some v else map_get m k)"
  by (simp add: map_get_def)

lemma spreadTo_None: "map_option (spreadTo None) x = x"
  by (cases x) (simp_all add: spreadTo_def)

lemma fold_applySpread_get:
  "distinct (map fst es) \<Longrightarrow>
   map_get (terrainCells (fold applySpread es ts)) k
     = map_option (spreadTo (map_get es k)) (map_get (terrainCells ts) k)"
proof (induction es arbitrary: ts)
  case Nil
  show ?case by (simp add: map_get_Nil spreadTo_None)
next
  case (Cons e es)
  obtain key a where e: "e = (key, a)" by (cases e)
  from Cons.prems e have d: "distinct (map fst es)" and notin: "key \<notin> fst ` set es" by auto
  from notin have none: "map_get es key = None" by (simp add: map_get_None_iff)
  have step: "map_get (terrainCells (fold applySpread es (applySpread (key, a) ts))) k
      = map_option (spreadTo (map_get es k)) (map_get (terrainCells (applySpread (key, a) ts)) k)"
    using Cons.IH[OF d, of "applySpread (key, a) ts"] by simp
  show ?case
  proof (cases "k = key")
    case True
    then show ?thesis
      using step none by (simp add: e applySpread_get map_get_Cons spreadTo_None)
  next
    case False
    then show ?thesis
      using step by (simp add: e applySpread_get map_get_Cons)
  qed
qed

lemma spreadPollution_get:
  "map_get (terrainCells (spreadPollution dt ts)) k
     = map_option (spreadTo (if receives ts k then Some (received ts (dt * (1 / 10)) k) else None))
         (map_get (terrainCells ts) k)"
  unfolding spreadPollution_def Let_def
  by (simp only: fold_applySpread_get[OF newPollutionMap_distinct] newPollutionMap_get)

lemma elem_le_sum_list:
  fixes f :: "'a \<Rightarrow> real"
  assumes "\<forall>x \<in> set xs. 0 \<le> f x" and "d \<in> set xs"
  shows "f d \<le> sum_list (map f xs)"
  using assms
proof (induction xs)
  case Nil
  then show ?case by simp
next
  case (Cons x xs)
  have nonneg: "0 \<le> sum_list (map f xs)"
    using Cons.prems(1) by (intro sum_list_nonneg) auto
  show ?case
  proof (cases "d = x")
    case True
    with nonneg show ?thesis by simp
  next
    case False
    with Cons have "f d \<le> sum_list (map f xs)" by simp
    moreover have "0 \<le> f x" using Cons.prems(1) by simp
    ultimately show ?thesis by simp
  qed
qed

lemma shareOf_nonneg:
  assumes "0 \<le> r" and "d \<in> set (donors ts)"
  shows "0 \<le> real (sharesTo ts k d) * shareOf ts r d"
proof -
  from assms(2) have "0 \<le> pollution d" by (simp add: donors_def)
  with assms(1) show ?thesis by (simp add: shareOf_def)
qed

lemma received_pos:
  assumes "0 < r" and "d \<in> set (donors ts)" and "0 < sharesTo ts k d"
  shows "0 < received ts r k"
proof -
  from assms(2) have p: "0 < pollution d" by (simp add: donors_def)
  from assms(3) have "getNeighborCells ts (cell_x d) (cell_z d) \<noteq> []"
    by (auto simp: sharesTo_def)
  then have "0 < real (length (getNeighborCells ts (cell_x d) (cell_z d)))" by simp
  with p assms(1) have "0 < shareOf ts r d" by (simp add: shareOf_def)
  with assms(3) have "0 < real (sharesTo ts k d) * shareOf ts r d" by simp
  also have "\<dots> \<le> received ts r k"
    unfolding received_def
    using assms(1,2) by (intro elem_le_sum_list) (auto simp: shareOf_nonneg)
  finally show ?thesis .
qed

text \<open>
  C8, as the code has it. After \<open>spreadPollution dt\<close> the cell at a key is the old cell
  with pollution \<open>min 1 (old + received)\<close> when the key receives a share and the cell is not
  water, and the old cell otherwise; what a key receives is the sum, over the cells whose
  pollution exceeds 0.05, of \<open>pollution * dt * 0.1 / n\<close> for each of the donor's \<open>n\<close>
  existing axis-neighbours that has this key. A donor does not lose what it hands out. For
  \<open>dt > 0\<close> a clean cell that is not water and is the neighbour of a donor is polluted
  after the pass.
\<close>

theorem spreadPollution_effect:
  "map_get (terrainCells (spreadPollution dt ts)) k
     = map_option (spreadTo (if receives ts k then Some (received ts (dt * (1 / 10)) k) else None))
         (map_get (terrainCells ts) k)
   \<and> (0 < dt \<and> d \<in> set (donors ts) \<and> 0 < sharesTo ts k d
        \<and> map_get (terrainCells ts) k = Some c \<and> \<not> isWater c \<and> pollution c = 0
      \<longrightarrow> (\<exists>c'. map_get (terrainCells (spreadPollution dt ts)) k = Some c' \<and> 0 < pollution c'))"
proof (intro conjI impI)
  show get: "map_get (terrainCells (spreadPollution dt ts)) k
     = map_option (spreadTo (if receives ts k then Some (received ts (dt * (1 / 10)) k) else None))
         (map_get (terrainCells ts) k)"
    by (rule spreadPollution_get)
  assume h: "0 < dt \<and> d \<in> set (donors ts) \<and> 0 < sharesTo ts k d
        \<and> map_get (terrainCells ts) k = Some c \<and> \<not> isWater c \<and> pollution c = 0"
  then have rec: "receives ts k" by (auto simp: receives_def list_ex_iff)
  from h have "0 < received ts (dt * (1 / 10)) k" by (intro received_pos[of _ d]) auto
  then have "0 < min 1 (pollution c + received ts (dt * (1 / 10)) k)" using h by simp
  with h rec show "\<exists>c'. map_get (terrainCells (spreadPollution dt ts)) k = Some c' \<and> 0 < pollution c'"
    unfolding get by (simp add: spreadTo_def)
qed

lemma ex_neighbors: "getNeighborCells exTerrain 1 1 = [exCellB]"
  by (simp add: getNeighborCells_def exTerrain_def getCellKey_def js_round_def map_get_def
      List.map_filter_def)

lemma ex_donors: "donors exTerrain = [exCellA]"
  by (simp add: donors_def exTerrain_def exCellA_def exCellB_def)

lemma ex_shares: "sharesTo exTerrain (4, 2) exCellA = 1"
proof -
  have "cell_x exCellA = 1" "cell_z exCellA = 1" by (simp_all add: exCellA_def)
  then show ?thesis
    by (simp add: sharesTo_def ex_neighbors cellKeyOf_def)
       (simp add: exCellB_def exCellA_def exTerrain_def getCellKey_def js_round_def)
qed

theorem spreadPollution_effect_witness:
  "0 < (1::real) \<and> exCellA \<in> set (donors exTerrain) \<and> 0 < sharesTo exTerrain (4, 2) exCellA
   \<and> map_get (terrainCells exTerrain) (4, 2) = Some exCellB \<and> \<not> isWater exCellB
   \<and> pollution exCellB = 0
   \<and> 0 < pollution (the (map_get (terrainCells (spreadPollution 1 exTerrain)) (4, 2)))"
proof -
  have pre: "0 < (1::real) \<and> exCellA \<in> set (donors exTerrain) \<and> 0 < sharesTo exTerrain (4, 2) exCellA
      \<and> map_get (terrainCells exTerrain) (4, 2) = Some exCellB \<and> \<not> isWater exCellB
      \<and> pollution exCellB = 0"
    by (simp add: ex_donors ex_shares) (simp add: exTerrain_def exCellB_def exCellA_def map_get_def)
  with spreadPollution_effect[where dt = 1 and ts = exTerrain and k = "(4, 2)" and d = exCellA
      and c = exCellB]
  show ?thesis by auto
qed

text \<open>
  C8 as stated fails on the two-cell terrain: the donor at \<open>(2, 2)\<close> keeps its pollution
  \<open>1/2\<close> while its only neighbour gains \<open>1/20\<close>, the whole of \<open>1/2 * 1 * 0.1\<close>.
\<close>

theorem spreadPollution_counterexample:
  "map_option pollution (map_get (terrainCells exTerrain) (2, 2)) = Some (1 / 2)
   \<and> map_option pollution (map_get (terrainCells (spreadPollution 1 exTerrain)) (2, 2)) = Some (1 / 2)
   \<and> map_option pollution (map_get (terrainCells exTerrain) (4, 2)) = Some 0
   \<and> map_option pollution (map_get (terrainCells (spreadPollution 1 exTerrain)) (4, 2)) = Some (1 / 20)"
  by (simp add: spreadPollution_def newPollutionMap_def donate_def getNeighborCells_def addSpread_def
      applySpread_def exTerrain_def exCellA_def exCellB_def getCellKey_def js_round_def map_get_def
      List.map_filter_def Let_def)

section \<open>Properties of the economic engine\<close>

lemma js_div_Some: "b \<noteq> 0 \<Longrightarrow> js_div a b = Some (a / b)"
  by (simp add: js_div_def)

lemma js_div_max1: "js_div a (max 1 b) = Some (a / max 1 b)"
  by (simp add: js_div_def max_def)

lemma forEach_Some:
  "(\<forall>x \<in> set xs. f x \<noteq> None) \<Longrightarrow> \<exists>ys. forEach f xs = Some ys"
  by (induction xs) auto

lemma forEach_elems:
  "forEach f xs = Some ys \<Longrightarrow> y \<in> set ys \<Longrightarrow> \<exists>x \<in> set xs. f x = Some y"
  by (induction xs arbitrary: ys) (auto split: bind_splits)

lemma calculateAverageSkillLevel_Some:
  "\<exists>y. calculateAverageSkillLevel business agents = Some y"
proof (cases "employeesOf business agents = []")
  case True
  then have "calculateAverageSkillLevel business agents = Some (3 / 10)"
    by (simp add: calculateAverageSkillLevel_def)
  then show ?thesis by blast
next
  case False
  then show ?thesis by (simp add: calculateAverageSkillLevel_def Let_def js_div_def)
qed

lemma getSupplyDemandRatio_Some: "\<exists>y. getSupplyDemandRatio e zone wealth = Some y"
  by (simp add: getSupplyDemandRatio_def Let_def js_div_max1)

lemma calculateBusinessEfficiency_Some:
  "calculateBusinessEfficiency e business building agents \<noteq> None"
proof -
  obtain y where y: "calculateAverageSkillLevel business agents = Some y"
    using calculateAverageSkillLevel_Some by blast
  show ?thesis
  proof (cases "zoneType building")
    case None
    with y show ?thesis by (simp add: calculateBusinessEfficiency_def Let_def)
  next
    case (Some zone)
    obtain q where "getSupplyDemandRatio e zone (wealthLevel building) = Some q"
      using getSupplyDemandRatio_Some by blast
    with y Some show ?thesis by (simp add: calculateBusinessEfficiency_def Let_def)
  qed
qed

lemma updateBusinessEmployment_fields:
  "revenue (updateBusinessEmployment b building agents) = revenue b"
  "operatingCosts (updateBusinessEmployment b building agents) = operatingCosts b"
  "profit (updateBusinessEmployment b building agents) = profit b"
  "buildingId (updateBusinessEmployment b building agents) = buildingId b"
  by (simp_all add: updateBusinessEmployment_def Let_def)

lemma updateBusiness_Some: "updateBusiness e buildings agents dt business \<noteq> None"
proof (cases "find (\<lambda>b. building_id b = buildingId business) buildings")
  case None
  then show ?thesis by (simp add: updateBusiness_def)
next
  case (Some building)
  show ?thesis
  proof (cases "status building = Operational")
    case False
    with Some show ?thesis by (simp add: updateBusiness_def)
  next
    case True
    let ?rev = "nan_mul (nan_mul (calculateBusinessRevenue e business building agents) (Some dt))
                  (Some 24)"
    let ?costs = "nan_mul (nan_mul (calculateOperatingCosts business building) (Some dt)) (Some 24)"
    obtain eff where eff: "calculateBusinessEfficiency e
        (business\<lparr>revenue := ?rev, operatingCosts := ?costs, profit := nan_sub ?rev ?costs\<rparr>)
        building agents = Some eff"
      using calculateBusinessEfficiency_Some by fastforce
    show ?thesis
      using Some True eff by (simp add: updateBusiness_def Let_def)
  qed
qed

text \<open>
  The pass stores the difference of the two numbers it has just stored, \<open>NaN\<close> when one of
  them is \<open>NaN\<close>.
\<close>

lemma updateBusiness_profit:
  assumes "updateBusiness e buildings agents dt business = Some b'"
  shows "buildingId b' = buildingId business
       \<and> (operationalBuilding buildings business
            \<longrightarrow> profit b' = nan_sub (revenue b') (operatingCosts b'))"
proof (cases "find (\<lambda>b. building_id b = buildingId business) buildings")
  case None
  with assms show ?thesis by (auto simp: updateBusiness_def operationalBuilding_def)
next
  case (Some building)
  show ?thesis
  proof (cases "status building = Operational")
    case False
    with Some assms show ?thesis by (auto simp: updateBusiness_def operationalBuilding_def)
  next
    case True
    with Some assms show ?thesis
      by (auto simp: updateBusiness_def Let_def updateBusinessEmployment_fields
          split: bind_splits if_splits)
  qed
qed

lemma operationalBuilding_cong:
  "buildingId b' = buildingId b \<Longrightarrow> operationalBuilding buildings b' = operationalBuilding buildings b"
  by (simp add: operationalBuilding_def)

lemma updateBusinesses_profit:
  "\<exists>e'. updateBusinesses buildings agents dt e = Some e'
      \<and> (\<forall>b \<in> set (businesses e'). operationalBuilding buildings b
            \<longrightarrow> profit b = nan_sub (revenue b) (operatingCosts b))"
proof -
  have "\<forall>b \<in> set (businesses e). updateBusiness e buildings agents dt b \<noteq> None"
    using updateBusiness_Some by blast
  then obtain bs where bs: "forEach (updateBusiness e buildings agents dt) (businesses e) = Some bs"
    using forEach_Some by blast
  have "\<forall>b' \<in> set bs. operationalBuilding buildings b'
          \<longrightarrow> profit b' = nan_sub (revenue b') (operatingCosts b')"
  proof
    fix b' assume "b' \<in> set bs"
    with forEach_elems[OF bs] obtain b where "updateBusiness e buildings agents dt b = Some b'"
      by blast
    from updateBusiness_profit[OF this] operationalBuilding_cong[of b' b buildings]
    show "operationalBuilding buildings b' \<longrightarrow> profit b' = nan_sub (revenue b') (operatingCosts b')"
      by simp
  qed
  with bs show ?thesis by (simp add: updateBusinesses_def)
qed

lemma updateMarketConditions_Some:
  "\<exists>e'. updateMarketConditions buildings agents e = Some e' \<and> businesses e' = businesses e
        \<and> tradeGoods e' = tradeGoods e"
proof -
  let ?residents = "filter (\<lambda>a. agent_type a = Citizen) agents"
  let ?population = "real (length ?residents)"
  let ?employed = "real (length (filter (\<lambda>a. employment a = Employed) ?residents))"
  obtain u where u: "(if ?population > 0 then js_div (?population - ?employed) ?population
                      else Some 0) = Some u"
    by (cases "?population > 0") (simp_all add: js_div_def)
  then show ?thesis
    by (simp add: updateMarketConditions_def Let_def js_div_max1)
qed

lemma updateTradeGood_Some: "\<exists>g'. updateTradeGood e r good = Some g'"
  by (simp add: updateTradeGood_def Let_def js_div_max1)

lemma updateGoodsFrom_Some: "\<exists>gs'. updateGoodsFrom e rnd i goods = Some gs'"
proof (induction goods arbitrary: i)
  case Nil
  show ?case by simp
next
  case (Cons kg goods)
  obtain key good where kg: "kg = (key, good)" by (cases kg)
  obtain g' where g': "updateTradeGood e (rnd i) good = Some g'"
    using updateTradeGood_Some by blast
  obtain gs' where "updateGoodsFrom e rnd (Suc i) goods = Some gs'"
    using Cons.IH by blast
  with g' kg show ?case by simp
qed

lemma updateTradeGoods_Some:
  "\<exists>e'. updateTradeGoods rnd e = Some e' \<and> businesses e' = businesses e"
proof -
  obtain gs' where "updateGoodsFrom e rnd 0 (tradeGoods e) = Some gs'"
    using updateGoodsFrom_Some by blast
  then show ?thesis by (simp add: updateTradeGoods_def)
qed

lemma updateTaxation_businesses: "businesses (updateTaxation buildings e) = businesses e"
  by (simp add: updateTaxation_def Let_def)

lemma updateEconomicIndicators_businesses:
  "businesses (updateEconomicIndicators r e) = businesses e"
  by (simp add: updateEconomicIndicators_def Let_def split: option.split)

lemma updateLoansAndInterest_businesses:
  "businesses (updateLoansAndInterest dt e) = businesses e"
  by (simp add: updateLoansAndInterest_def Let_def)

lemma updateCityRating_Some:
  "\<exists>e'. updateCityRating e = Some e' \<and> businesses e' = businesses e
        \<and> tradeGoods e' = tradeGoods e \<and> inflationRate e' = inflationRate e"
  by (simp add: updateCityRating_def Let_def js_div_max1)

lemma generateEconomicReport_Some:
  "\<exists>report. generateEconomicReport buildings agents e = Some report"
proof -
  let ?population = "real (length (filter (\<lambda>a. agent_type a = Citizen) agents))"
  let ?employed = "real (length (filter (\<lambda>a. agent_type a = Citizen \<and> employment a = Employed) agents))"
  obtain u where "(if ?population > 0
               then map_option (\<lambda>q. q * 100) (js_div (?population - ?employed) ?population)
               else Some 0) = Some u"
    by (cases "?population > 0") (simp_all add: js_div_def)
  then show ?thesis
    by (simp add: generateEconomicReport_def Let_def)
qed

lemma updateEconomy_after_businesses:
  assumes "updateMarketConditions buildings agents e = Some e1"
    and "updateBusinesses buildings agents dt e1 = Some e2"
  shows "\<exists>e' report. updateEconomy dt buildings agents rnd e = Some (e', report)
           \<and> businesses e' = businesses e2"
proof -
  obtain e3 where e3: "updateTradeGoods rnd e2 = Some e3" "businesses e3 = businesses e2"
    using updateTradeGoods_Some by blast
  let ?e4 = "updateLoansAndInterest dt
               (updateEconomicIndicators (rnd (length (tradeGoods (updateTaxation buildings e3))))
                  (updateTaxation buildings e3))"
  have b4: "businesses ?e4 = businesses e2"
    by (simp add: updateLoansAndInterest_businesses updateEconomicIndicators_businesses
        updateTaxation_businesses e3)
  obtain e5 where e5: "updateCityRating ?e4 = Some e5" "businesses e5 = businesses ?e4"
    using updateCityRating_Some by blast
  obtain report where "generateEconomicReport buildings agents e5 = Some report"
    using generateEconomicReport_Some by blast
  with assms e3 e5 b4 show ?thesis
    by (simp add: updateEconomy_def Let_def)
qed

lemma exOddShop_updated:
  "updateBusiness exOddEngine [exBuilding] [] 1 exOddShop =
     Some (exOddShop\<lparr>revenue := None, operatingCosts := None, profit := None,
        efficiency := 69 / 100, customerSatisfaction := Some (938 / 1000), daysSinceProfit := 1,
        bankruptcyRisk := 1 / 30\<rparr>)"
  by (simp add: updateBusiness_def exOddEngine_def exOddShop_def exBuilding_def exShop_def
      newEconomicEngine_def exData_def calculateBusinessRevenue_def calculateOperatingCosts_def
      js_or_def typeMultipliers_def supplyCosts_def objectPrototypeMembers_def
      calculateBusinessEfficiency_def calculateAverageSkillLevel_def employeesOf_def
      getSupplyDemandRatio_def calculateCustomerSatisfaction_def updateBusinessEmployment_def
      js_div_def nan_mul_def nan_add_def nan_sub_def nan_gt_def Let_def)

text \<open>
  C2. A business whose type is \<open>constructor\<close>, in an operational building. The lookups
  \<open>typeMultipliers[business.type]\<close> and \<open>supplyCosts[business.type]\<close> find the member that the
  object literal inherits, a function, so \<open>|| 1.0\<close> and \<open>|| 0.3\<close> do not apply and the two products
  are \<open>NaN\<close>. After \<open>updateBusinesses\<close>, \<open>revenue\<close>, \<open>operatingCosts\<close> and \<open>profit\<close> of the
  business are \<open>NaN\<close>, and \<open>profit == revenue - operatingCosts\<close> is false.
\<close>

theorem business_profit_not_a_number:
  "businesses exOddEngine = [exOddShop] \<and> operationalBuilding [exBuilding] exOddShop
   \<and> map_option
         (\<lambda>e'. map (\<lambda>b. (revenue b, operatingCosts b, profit b, profitIsDifference b))
                 (businesses e'))
         (updateBusinesses [exBuilding] [] 1 exOddEngine)
       = Some [(None, None, None, False)]"
proof -
  have "businesses exOddEngine = [exOddShop]"
    by (simp add: exOddEngine_def)
  moreover have "operationalBuilding [exBuilding] exOddShop"
    by (simp add: operationalBuilding_def exBuilding_def exOddShop_def exShop_def)
  ultimately show ?thesis
    by (simp add: updateBusinesses_def exOddShop_updated profitIsDifference_def nan_eq_def
        nan_sub_def)
qed

lemma updateTradeGood_result:
  assumes "updateTradeGood e r good = Some g'"
  shows "basePrice g' = basePrice good \<and> imported g' = imported good
       \<and> 20 \<le> good_demand g'
       \<and> currentPrice g' = js_round (basePrice g' * priceMultiplierOf g')"
proof -
  have "max 1 (max 20 x) = max 20 x" for x :: real by simp
  with assms show ?thesis
    by (auto simp: updateTradeGood_def Let_def js_div_def priceMultiplierOf_def
        split: if_splits)
qed

lemma updateGoodsFrom_elems:
  assumes "updateGoodsFrom e rnd i goods = Some goods'" and "(key, g') \<in> set goods'"
  shows "\<exists>g j. (key, g) \<in> set goods \<and> updateTradeGood e (rnd j) g = Some g'"
  using assms
proof (induction goods arbitrary: i goods')
  case Nil
  then show ?case by simp
next
  case (Cons kg goods)
  obtain k g where kg: "kg = (k, g)" by (cases kg)
  from Cons.prems(1) kg obtain g1 rest where
    g1: "updateTradeGood e (rnd i) g = Some g1"
    and rest: "updateGoodsFrom e rnd (Suc i) goods = Some rest"
    and goods': "goods' = (k, g1) # rest"
    by (auto split: bind_splits)
  show ?case
  proof (cases "(key, g') = (k, g1)")
    case True
    with g1 kg show ?thesis by auto
  next
    case False
    with Cons.prems(2) goods' have "(key, g') \<in> set rest" by auto
    from Cons.IH[OF rest this] show ?thesis by auto
  qed
qed

lemma updateGoodsFrom_length:
  "updateGoodsFrom e rnd i goods = Some goods' \<Longrightarrow> length goods' = length goods"
  by (induction goods arbitrary: i goods') (auto split: bind_splits)

lemma js_round_bounds:
  fixes b :: int
  assumes "0 \<le> b" and "1 / 2 \<le> m" and "m \<le> 2"
  shows "1 / 2 * real_of_int b \<le> js_round (real_of_int b * m)
       \<and> js_round (real_of_int b * m) \<le> 2 * real_of_int b"
proof
  let ?x = "real_of_int b * m"
  have hi: "?x \<le> real_of_int b * 2"
    using assms by (intro mult_left_mono) auto
  have lo: "real_of_int b * (1 / 2) \<le> ?x"
    using assms by (intro mult_left_mono) auto
  have "?x + 1 / 2 < real_of_int (2 * b + 1)"
    using hi by simp
  then have "\<lfloor>?x + 1 / 2\<rfloor> < 2 * b + 1"
    by (simp only: floor_less_iff)
  then have "\<lfloor>?x + 1 / 2\<rfloor> \<le> 2 * b"
    by simp
  then have "real_of_int \<lfloor>?x + 1 / 2\<rfloor> \<le> real_of_int (2 * b)"
    by (simp only: of_int_le_iff)
  then show "js_round ?x \<le> 2 * real_of_int b"
    by (simp add: js_round_def)
  have "real_of_int (b + 1) / real_of_int 2 \<le> ?x + 1 / 2"
    using lo by simp
  then have "\<lfloor>real_of_int (b + 1) / real_of_int 2\<rfloor> \<le> \<lfloor>?x + 1 / 2\<rfloor>"
    by (rule floor_mono)
  then have "(b + 1) div 2 \<le> \<lfloor>?x + 1 / 2\<rfloor>"
    by (simp only: floor_divide_of_int_eq)
  then have "b \<le> 2 * \<lfloor>?x + 1 / 2\<rfloor>"
    by linarith
  then have "real_of_int b \<le> real_of_int (2 * \<lfloor>?x + 1 / 2\<rfloor>)"
    by (simp only: of_int_le_iff)
  then show "1 / 2 * real_of_int b \<le> js_round ?x"
    by (simp add: js_round_def)
qed

lemma priceMultiplierOf_range: "1 / 2 \<le> priceMultiplierOf g \<and> priceMultiplierOf g \<le> 2"
  by (simp add: priceMultiplierOf_def)

text \<open>
  C9, as the code has it. \<open>updateTradeGoods\<close> never divides by zero, and after it every good
  has \<open>currentPrice = Math.round(basePrice * clamp(2 - supply / demand, 0.5, 2.0))\<close>, with the
  supply and demand the pass has just stored. When the base price is a non-negative integer, as
  all six of the catalogue are, the price lies between half and twice the base price.
\<close>

theorem tradeGood_price:
  "\<exists>e'. updateTradeGoods rnd e = Some e'
     \<and> (\<forall>(key, g) \<in> set (tradeGoods e').
           currentPrice g = js_round (basePrice g * priceMultiplierOf g)
           \<and> (0 \<le> basePrice g \<and> basePrice g \<in> \<int>
                \<longrightarrow> 1 / 2 * basePrice g \<le> currentPrice g \<and> currentPrice g \<le> 2 * basePrice g))"
proof -
  obtain goods' where goods': "updateGoodsFrom e rnd 0 (tradeGoods e) = Some goods'"
    by (cases "updateGoodsFrom e rnd 0 (tradeGoods e)")
       (use updateTradeGoods_Some[of rnd e] in \<open>auto simp: updateTradeGoods_def\<close>)
  have "currentPrice g = js_round (basePrice g * priceMultiplierOf g)
           \<and> (0 \<le> basePrice g \<and> basePrice g \<in> \<int>
                \<longrightarrow> 1 / 2 * basePrice g \<le> currentPrice g \<and> currentPrice g \<le> 2 * basePrice g)"
    if "(key, g) \<in> set goods'" for key g
  proof -
    from updateGoodsFrom_elems[OF goods' that] obtain g0 j
      where "updateTradeGood e (rnd j) g0 = Some g" by blast
    from updateTradeGood_result[OF this]
    have price: "currentPrice g = js_round (basePrice g * priceMultiplierOf g)" by simp
    have "1 / 2 * basePrice g \<le> currentPrice g \<and> currentPrice g \<le> 2 * basePrice g"
      if "0 \<le> basePrice g \<and> basePrice g \<in> \<int>"
    proof -
      from that obtain b :: int where b: "basePrice g = real_of_int b" "0 \<le> b"
        by (auto elim!: Ints_cases)
      from js_round_bounds[OF b(2), of "priceMultiplierOf g"] priceMultiplierOf_range[of g]
      show ?thesis by (simp add: price b(1))
    qed
    with price show ?thesis by blast
  qed
  with goods' show ?thesis by (auto simp: updateTradeGoods_def)
qed


lemma ex_updateTradeGood:
  "updateTradeGood (newEconomicEngine exData) (1 / 2)
     \<lparr>good_id = i, good_type = t, basePrice = p, currentPrice = p, good_demand = 100,
      good_supply = 100, quality = 1, imported = True\<rparr>
   = Some \<lparr>good_id = i, good_type = t, basePrice = p,
       currentPrice = js_round (p * (if t = ManufacturedGoods then 14 / 15 else 2 / 3)),
       good_demand = 75, good_supply = (if t = ManufacturedGoods then 80 else 100),
       quality = 1, imported = True\<rparr>"
  by (simp add: updateTradeGood_def newEconomicEngine_def exData_def js_div_def Let_def)

lemma ex_goods_updated:
  "updateGoodsFrom (newEconomicEngine exData) exRnd 0 initializeTradeGoods
     = Some [exGoodAfter ''food'' Food 100 100 67,
             exGoodAfter ''materials'' RawMaterials 200 100 133,
             exGoodAfter ''manufactured'' ManufacturedGoods 300 80 280,
             exGoodAfter ''luxury'' LuxuryItems 500 100 333,
             exGoodAfter ''energy'' Energy 150 100 100,
             exGoodAfter ''technology'' Technology 400 100 267]"
  by (simp add: initializeTradeGoods_def baseGood_def exRnd_def ex_updateTradeGood
      exGoodAfter_def js_round_def)

lemma ex_importValue:
  "importValue [exGoodAfter ''food'' Food 100 100 67,
             exGoodAfter ''materials'' RawMaterials 200 100 133,
             exGoodAfter ''manufactured'' ManufacturedGoods 300 80 280,
             exGoodAfter ''luxury'' LuxuryItems 500 100 333,
             exGoodAfter ''energy'' Energy 150 100 100,
             exGoodAfter ''technology'' Technology 400 100 267] = 88500
   \<and> exportValue [exGoodAfter ''food'' Food 100 100 67,
             exGoodAfter ''materials'' RawMaterials 200 100 133,
             exGoodAfter ''manufactured'' ManufacturedGoods 300 80 280,
             exGoodAfter ''luxury'' LuxuryItems 500 100 333,
             exGoodAfter ''energy'' Energy 150 100 100,
             exGoodAfter ''technology'' Technology 400 100 267] = 0"
  by (simp add: importValue_def exportValue_def exGoodAfter_def)


lemma ex_tradeGoods_after:
  "updateTradeGoods exRnd (newEconomicEngine exData)
     = Some ((newEconomicEngine exData)
         \<lparr>tradeGoods := [exGoodAfter ''food'' Food 100 100 67,
             exGoodAfter ''materials'' RawMaterials 200 100 133,
             exGoodAfter ''manufactured'' ManufacturedGoods 300 80 280,
             exGoodAfter ''luxury'' LuxuryItems 500 100 333,
             exGoodAfter ''energy'' Energy 150 100 100,
             exGoodAfter ''technology'' Technology 400 100 267]\<rparr>)"
proof -
  have "tradeGoods (newEconomicEngine exData) = initializeTradeGoods"
    by (simp add: newEconomicEngine_def)
  then show ?thesis
    by (simp add: updateTradeGoods_def ex_goods_updated)
qed

lemma ex_food_after:
  "exFoodAfter = \<lparr>good_id = ''food'', good_type = Food, basePrice = 100, currentPrice = 67,
     good_demand = 75, good_supply = 100, quality = 1, imported = True\<rparr>"
  by (simp add: exFoodAfter_def ex_tradeGoods_after map_get_def exGoodAfter_def)

text \<open>
  C9 as stated fails on the new engine: \<open>food\<close> has base price 100, supply 100 and demand
  75, so the unrounded price is \<open>200/3\<close>, and the price stored is 67.
\<close>

theorem tradeGood_price_counterexample:
  "updateTradeGoods exRnd (newEconomicEngine exData) \<noteq> None
   \<and> basePrice exFoodAfter = 100 \<and> good_supply exFoodAfter = 100 \<and> good_demand exFoodAfter = 75
   \<and> currentPrice exFoodAfter = 67
   \<and> currentPrice exFoodAfter
       \<noteq> basePrice exFoodAfter
           * max (1 / 2) (min 2 (2 - good_supply exFoodAfter / good_demand exFoodAfter))"
proof -
  have "updateTradeGoods exRnd (newEconomicEngine exData) \<noteq> None"
    using updateTradeGoods_Some[of exRnd "newEconomicEngine exData"] by auto
  then show ?thesis by (simp add: ex_food_after)
qed

theorem tradeGood_price_witness:
  "(''food'', exFoodAfter) \<in> set (tradeGoods (the (updateTradeGoods exRnd (newEconomicEngine exData))))
   \<and> 0 \<le> basePrice exFoodAfter \<and> basePrice exFoodAfter \<in> \<int>
   \<and> currentPrice exFoodAfter = js_round (basePrice exFoodAfter * priceMultiplierOf exFoodAfter)
   \<and> 1 / 2 * basePrice exFoodAfter \<le> currentPrice exFoodAfter
   \<and> currentPrice exFoodAfter \<le> 2 * basePrice exFoodAfter"
proof -
  from tradeGood_price[of exRnd "newEconomicEngine exData"]
  obtain e' where e': "updateTradeGoods exRnd (newEconomicEngine exData) = Some e'"
    and all: "\<forall>(key, g) \<in> set (tradeGoods e').
           currentPrice g = js_round (basePrice g * priceMultiplierOf g)
           \<and> (0 \<le> basePrice g \<and> basePrice g \<in> \<int>
                \<longrightarrow> 1 / 2 * basePrice g \<le> currentPrice g \<and> currentPrice g \<le> 2 * basePrice g)"
    by blast
  have mem: "(''food'', exFoodAfter) \<in> set (tradeGoods (the (updateTradeGoods exRnd (newEconomicEngine exData))))"
    unfolding ex_food_after by (simp add: ex_tradeGoods_after exGoodAfter_def)
  have base: "0 \<le> basePrice exFoodAfter \<and> basePrice exFoodAfter \<in> \<int>"
    by (simp add: ex_food_after)
  from all mem e' base show ?thesis by fastforce
qed

lemma fold_add_sum_list:
  fixes f :: "'a \<Rightarrow> real"
  shows "fold (\<lambda>x s. s + f x) xs a = a + sum_list (map f xs)"
  by (induction xs arbitrary: a) simp_all

lemma sum_list_pos_real:
  fixes f :: "'a \<Rightarrow> real"
  assumes "\<forall>x \<in> set xs. 0 < f x" and "xs \<noteq> []"
  shows "0 < sum_list (map f xs)"
  using assms
proof (induction xs)
  case Nil
  then show ?case by simp
next
  case (Cons x xs)
  show ?case
  proof (cases "xs = []")
    case True
    with Cons.prems show ?thesis by simp
  next
    case False
    with Cons have "0 < sum_list (map f xs)" by simp
    moreover have "0 < f x" using Cons.prems by simp
    ultimately show ?thesis by simp
  qed
qed

lemma sum_list_zeros: "sum_list (map (\<lambda>x. 0 :: real) xs) = 0"
  by (induction xs) simp_all

lemma js_round_ge_1: "1 / 2 \<le> x \<Longrightarrow> 1 \<le> js_round x"
proof -
  assume "1 / 2 \<le> x"
  then have "real_of_int 1 \<le> x + 1 / 2" by simp
  then have "1 \<le> \<lfloor>x + 1 / 2\<rfloor>" by (simp only: le_floor_iff)
  then show ?thesis unfolding js_round_def by linarith
qed

lemma updateTaxation_tradeGoods: "tradeGoods (updateTaxation buildings e) = tradeGoods e"
  by (simp add: updateTaxation_def Let_def)

lemma updateEconomicIndicators_tradeGoods:
  "tradeGoods (updateEconomicIndicators r e) = tradeGoods e"
  by (simp add: updateEconomicIndicators_def Let_def split: option.split)

lemma updateLoansAndInterest_tradeGoods:
  "tradeGoods (updateLoansAndInterest dt e) = tradeGoods e"
  by (simp add: updateLoansAndInterest_def Let_def)

lemma generateEconomicReport_empty:
  "\<exists>report. generateEconomicReport buildings [] e = Some report
     \<and> gdp report = nan_mul (operationalRevenue (businesses e)) (Some 365)
     \<and> unemployment report = 0
     \<and> tradeBalance report = exportValue (tradeGoods e) - importValue (tradeGoods e)"
  by (simp add: generateEconomicReport_def Let_def)

lemma updateBusinesses_empty:
  "businesses e = [] \<Longrightarrow> updateBusinesses buildings agents dt e = Some (e\<lparr>businesses := []\<rparr>)"
  by (simp add: updateBusinesses_def)

lemma updateEconomy_empty_world:
  assumes "businesses e = []"
  shows "\<exists>e1 e3 e' report.
           updateMarketConditions [] [] e = Some e1 \<and> tradeGoods e1 = tradeGoods e
         \<and> updateTradeGoods rnd (e1\<lparr>businesses := []\<rparr>) = Some e3
         \<and> updateEconomy dt [] [] rnd e = Some (e', report)
         \<and> tradeGoods e' = tradeGoods e3
         \<and> gdp report = Some 0 \<and> unemployment report = 0
         \<and> tradeBalance report = exportValue (tradeGoods e3) - importValue (tradeGoods e3)"
proof -
  obtain e1 where e1: "updateMarketConditions [] [] e = Some e1"
      "businesses e1 = businesses e" "tradeGoods e1 = tradeGoods e"
    using updateMarketConditions_Some by blast
  have e2: "updateBusinesses [] [] dt e1 = Some (e1\<lparr>businesses := []\<rparr>)"
    using e1 assms by (simp add: updateBusinesses_empty)
  obtain e3 where e3: "updateTradeGoods rnd (e1\<lparr>businesses := []\<rparr>) = Some e3"
      "businesses e3 = businesses (e1\<lparr>businesses := []\<rparr>)"
    using updateTradeGoods_Some by blast
  let ?e4 = "updateLoansAndInterest dt
               (updateEconomicIndicators (rnd (length (tradeGoods (updateTaxation [] e3))))
                  (updateTaxation [] e3))"
  have b4: "businesses ?e4 = []" "tradeGoods ?e4 = tradeGoods e3"
    by (simp_all add: updateLoansAndInterest_businesses updateEconomicIndicators_businesses
        updateTaxation_businesses updateLoansAndInterest_tradeGoods
        updateEconomicIndicators_tradeGoods updateTaxation_tradeGoods e3)
  obtain e5 where e5: "updateCityRating ?e4 = Some e5" "businesses e5 = businesses ?e4"
      "tradeGoods e5 = tradeGoods ?e4"
    using updateCityRating_Some by blast
  obtain report where report: "generateEconomicReport [] [] e5 = Some report"
      "gdp report = nan_mul (operationalRevenue (businesses e5)) (Some 365)" "unemployment report = 0"
      "tradeBalance report = exportValue (tradeGoods e5) - importValue (tradeGoods e5)"
    using generateEconomicReport_empty by blast
  have "updateEconomy dt [] [] rnd e = Some (e5, report)"
    using e1(1) e2 e3(1) e5(1) report(1) by (simp add: updateEconomy_def Let_def)
  moreover have "gdp report = Some 0"
    using report(2) e5(2) b4(1) by (simp add: operationalRevenue_def nan_mul_def)
  ultimately show ?thesis
    using e1(1,3) e3(1) report(3,4) e5(3) b4(2) by simp
qed

lemma importValue_pos:
  assumes "updateGoodsFrom e rnd i goods = Some goods'" and "goods \<noteq> []"
    and "\<forall>(key, g) \<in> set goods. imported g \<and> 1 \<le> basePrice g"
  shows "exportValue goods' = 0 \<and> 0 < importValue goods'"
proof -
  have each: "imported g' \<and> 0 < good_demand g' * currentPrice g'" if "g' \<in> set (map snd goods')" for g'
  proof -
    from that obtain key where "(key, g') \<in> set goods'" by auto
    from updateGoodsFrom_elems[OF assms(1) this] obtain g j
      where g: "(key, g) \<in> set goods" "updateTradeGood e (rnd j) g = Some g'" by blast
    from updateTradeGood_result[OF g(2)] g(1) assms(3)
    have r: "imported g'" "1 \<le> basePrice g'" "20 \<le> good_demand g'"
      "currentPrice g' = js_round (basePrice g' * priceMultiplierOf g')"
      by auto
    have "1 * (1 / 2) \<le> basePrice g' * priceMultiplierOf g'"
      using r(2) priceMultiplierOf_range[of g'] by (intro mult_mono) auto
    then have "1 \<le> currentPrice g'" using js_round_ge_1 r(4) by simp
    with r(1,3) show ?thesis by simp
  qed
  have ne: "map snd goods' \<noteq> []"
    using updateGoodsFrom_length[OF assms(1)] assms(2) by auto
  have ex: "map (\<lambda>g. if \<not> imported g then good_supply g * currentPrice g else 0) (map snd goods')
      = map (\<lambda>g. 0) (map snd goods')"
    by (rule map_cong) (use each in auto)
  have "exportValue goods'
      = 0 + sum_list (map (\<lambda>g. if \<not> imported g then good_supply g * currentPrice g else 0)
                       (map snd goods'))"
    by (simp only: exportValue_def fold_add_sum_list)
  also have "\<dots> = 0 + sum_list (map (\<lambda>g. 0 :: real) (map snd goods'))"
    by (simp only: ex)
  also have "\<dots> = 0"
    by (simp only: sum_list_zeros add_0_left)
  finally have "exportValue goods' = 0" .
  moreover have im: "map (\<lambda>g. if imported g then good_demand g * currentPrice g else 0) (map snd goods')
      = map (\<lambda>g. good_demand g * currentPrice g) (map snd goods')"
    by (rule map_cong) (use each in auto)
  have "importValue goods'
      = 0 + sum_list (map (\<lambda>g. if imported g then good_demand g * currentPrice g else 0)
                       (map snd goods'))"
    by (simp only: importValue_def fold_add_sum_list)
  then have "importValue goods' = sum_list (map (\<lambda>g. good_demand g * currentPrice g) (map snd goods'))"
    by (simp only: im add_0_left)
  moreover have "0 < sum_list (map (\<lambda>g. good_demand g * currentPrice g) (map snd goods'))"
    using each ne by (intro sum_list_pos_real) auto
  ultimately show ?thesis by simp
qed

lemma updateTradeGood_cong:
  assumes "businesses e = businesses e'"
    and "wealth_low (economicData e) = wealth_low (economicData e')"
    and "wealth_medium (economicData e) = wealth_medium (economicData e')"
    and "wealth_high (economicData e) = wealth_high (economicData e')"
  shows "updateTradeGood e r g = updateTradeGood e' r g"
  using assms by (simp add: updateTradeGood_def)

lemma updateGoodsFrom_cong:
  assumes "businesses e = businesses e'"
    and "wealth_low (economicData e) = wealth_low (economicData e')"
    and "wealth_medium (economicData e) = wealth_medium (economicData e')"
    and "wealth_high (economicData e) = wealth_high (economicData e')"
  shows "updateGoodsFrom e rnd i goods = updateGoodsFrom e' rnd i goods"
proof (induction goods arbitrary: i)
  case Nil
  show ?case by simp
next
  case (Cons kg goods)
  obtain k g where kg: "kg = (k, g)" by (cases kg)
  show ?case
    unfolding kg using Cons.IH[of "Suc i"] updateTradeGood_cong[OF assms, of "rnd i" g]
    by simp
qed

lemma updateMarketConditions_wealth:
  assumes "updateMarketConditions buildings agents e = Some e1"
  shows "wealth_low (economicData e1) = wealth_low (economicData e)
       \<and> wealth_medium (economicData e1) = wealth_medium (economicData e)
       \<and> wealth_high (economicData e1) = wealth_high (economicData e)"
  using assms by (auto simp: updateMarketConditions_def Let_def split: bind_splits if_splits)

text \<open>
  C7, as the code has it. With no buildings, no agents and no businesses \<open>updateEconomy\<close>
  forms no quotient by zero and reports \<open>gdp = 0\<close>, the number, and \<open>unemployment = 0\<close>; the trade
  balance is the export value minus the import value of the trade goods, and it is negative
  when the goods are all imported with a base price of at least 1, as the six of the catalogue
  are.
\<close>

theorem empty_world_report:
  assumes "businesses e = []"
  shows "\<exists>e' report. updateEconomy dt [] [] rnd e = Some (e', report)
           \<and> gdp report = Some 0 \<and> unemployment report = 0
           \<and> tradeBalance report = exportValue (tradeGoods e') - importValue (tradeGoods e')
           \<and> (tradeGoods e \<noteq> [] \<and> (\<forall>(key, g) \<in> set (tradeGoods e). imported g \<and> 1 \<le> basePrice g)
                \<longrightarrow> tradeBalance report < 0)"
proof -
  from updateEconomy_empty_world[OF assms, of rnd dt]
  obtain e1 e3 e' report where r:
      "updateMarketConditions [] [] e = Some e1" "tradeGoods e1 = tradeGoods e"
      "updateTradeGoods rnd (e1\<lparr>businesses := []\<rparr>) = Some e3"
      "updateEconomy dt [] [] rnd e = Some (e', report)" "tradeGoods e' = tradeGoods e3"
      "gdp report = Some 0" "unemployment report = 0"
      "tradeBalance report = exportValue (tradeGoods e3) - importValue (tradeGoods e3)"
    by blast
  have neg: "tradeBalance report < 0"
    if h: "tradeGoods e \<noteq> [] \<and> (\<forall>(key, g) \<in> set (tradeGoods e). imported g \<and> 1 \<le> basePrice g)"
  proof -
    from r(3) have "updateGoodsFrom (e1\<lparr>businesses := []\<rparr>) rnd 0 (tradeGoods e) = Some (tradeGoods e3)"
      by (auto simp: updateTradeGoods_def r(2) split: bind_splits)
    from importValue_pos[OF this] h r(8) show ?thesis by auto
  qed
  from r(4,5,6,7,8) neg show ?thesis by auto
qed

text \<open>
  C7 as stated fails on a new engine: in the empty world the six imported goods are each in
  demand at 75 and priced 67, 133, 280, 333, 100 and 267, so the trade balance is -88500.
\<close>

theorem empty_world_report_counterexample:
  "updateEconomy 1 [] [] exRnd (newEconomicEngine exData) \<noteq> None
   \<and> gdp exReport = Some 0 \<and> unemployment exReport = 0
   \<and> tradeBalance exReport = - 88500 \<and> tradeBalance exReport \<noteq> 0"
proof -
  have b: "businesses (newEconomicEngine exData) = []"
    by (simp add: newEconomicEngine_def)
  from updateEconomy_empty_world[OF b, of exRnd 1]
  obtain e1 e3 e' report where r:
      "updateMarketConditions [] [] (newEconomicEngine exData) = Some e1"
      "tradeGoods e1 = tradeGoods (newEconomicEngine exData)"
      "updateTradeGoods exRnd (e1\<lparr>businesses := []\<rparr>) = Some e3"
      "updateEconomy 1 [] [] exRnd (newEconomicEngine exData) = Some (e', report)"
      "gdp report = Some 0" "unemployment report = 0"
      "tradeBalance report = exportValue (tradeGoods e3) - importValue (tradeGoods e3)"
    by blast
  have "updateGoodsFrom (e1\<lparr>businesses := []\<rparr>) exRnd 0 initializeTradeGoods
      = updateGoodsFrom (newEconomicEngine exData) exRnd 0 initializeTradeGoods"
    using updateMarketConditions_wealth[OF r(1)] b
    by (intro updateGoodsFrom_cong) simp_all
  moreover have "tradeGoods e1 = initializeTradeGoods"
    using r(2) by (simp add: newEconomicEngine_def)
  ultimately have "tradeGoods e3 = [exGoodAfter ''food'' Food 100 100 67,
             exGoodAfter ''materials'' RawMaterials 200 100 133,
             exGoodAfter ''manufactured'' ManufacturedGoods 300 80 280,
             exGoodAfter ''luxury'' LuxuryItems 500 100 333,
             exGoodAfter ''energy'' Energy 150 100 100,
             exGoodAfter ''technology'' Technology 400 100 267]"
    using r(3) ex_goods_updated by (auto simp: updateTradeGoods_def split: bind_splits)
  with r(7) have "tradeBalance report = - 88500"
    by (simp only: ex_importValue)
  moreover have "exReport = report"
    by (simp add: exReport_def r(4))
  ultimately show ?thesis
    using r(4,5,6) by simp
qed

theorem empty_world_report_witness:
  "businesses (newEconomicEngine exData) = [] \<and> tradeGoods (newEconomicEngine exData) \<noteq> []
   \<and> list_all (\<lambda>(key, g). imported g \<and> 1 \<le> basePrice g) (tradeGoods (newEconomicEngine exData))
   \<and> updateEconomy 1 [] [] exRnd (newEconomicEngine exData) \<noteq> None
   \<and> gdp exReport = Some 0 \<and> unemployment exReport = 0 \<and> tradeBalance exReport < 0"
proof -
  have b: "businesses (newEconomicEngine exData) = []"
    by (simp add: newEconomicEngine_def)
  have ne: "tradeGoods (newEconomicEngine exData) \<noteq> []"
    by (simp add: newEconomicEngine_def initializeTradeGoods_def)
  have imp: "list_all (\<lambda>(key, g). imported g \<and> 1 \<le> basePrice g) (tradeGoods (newEconomicEngine exData))"
    by (simp add: newEconomicEngine_def initializeTradeGoods_def baseGood_def)
  then have imp': "\<forall>(key, g) \<in> set (tradeGoods (newEconomicEngine exData)). imported g \<and> 1 \<le> basePrice g"
    by (simp only: list_all_iff)
  from empty_world_report[OF b, of 1 exRnd]
  obtain e' report where r: "updateEconomy 1 [] [] exRnd (newEconomicEngine exData) = Some (e', report)"
      "gdp report = Some 0" "unemployment report = 0"
      "tradeGoods (newEconomicEngine exData) \<noteq> []
         \<and> (\<forall>(key, g) \<in> set (tradeGoods (newEconomicEngine exData)). imported g \<and> 1 \<le> basePrice g)
       \<longrightarrow> tradeBalance report < 0"
    by blast
  from r(4) ne imp' have "tradeBalance report < 0" by blast
  moreover have "exReport = report"
    by (simp add: exReport_def r(1))
  ultimately show ?thesis
    using b ne imp r(1,2,3) by simp
qed

section \<open>Properties of the path search\<close>

lemma js_clamp_index:
  "js_max (Num 0) (js_min (Num (real_of_int n - 1)) (js_floor (Num q)))
     = Num (real_of_int (max 0 (min (n - 1) \<lfloor>q\<rfloor>)))"
  by (simp add: of_int_max of_int_min)

lemma worldToGrid_Num:
  assumes "grid_cellSize ps \<noteq> 0"
  shows "worldToGrid ps p =
           (Num (real_of_int (cellIndex (grid_width ps) (grid_cellSize ps) (vx p))),
            Num (real_of_int (cellIndex (grid_height ps) (grid_cellSize ps) (vz p))))"
proof -
  have d: "js_divide (Num a) (Num (grid_cellSize ps)) = Num (a / grid_cellSize ps)" for a
    using assms by simp
  show ?thesis
    unfolding worldToGrid_def Let_def cellIndex_def by (simp only: d js_clamp_index)
qed

lemma isValidGridPosition_Num:
  "isValidGridPosition ps (Num (real_of_int x)) (Num (real_of_int y))
     = (0 \<le> x \<and> x < grid_width ps \<and> 0 \<le> y \<and> y < grid_height ps)"
  by (simp add: isValidGridPosition_def)

lemma cellIndex_range: "1 \<le> n \<Longrightarrow> 0 \<le> cellIndex n cs v \<and> cellIndex n cs v < n"
  by (simp add: cellIndex_def)




lemma staticSame_refl: "staticSame ps ps"
  by (simp add: staticSame_def)

lemma staticSame_gridKeys: "staticSame ps0 ps \<Longrightarrow> gridKeys ps = gridKeys ps0"
  by (simp add: staticSame_def gridKeys_def)






subsection \<open>The path of the parents\<close>



subsection \<open>The choice of the current node\<close>











subsection \<open>Smoothing returns\<close>











lemma exEmptyGrid_new: "newPathfindingSystem 0 1 = Some exEmptyGrid"
proof -
  have "(\<lambda>k. case k of
               (Num x, Num y) \<Rightarrow>
                 if x = of_int \<lfloor>x\<rfloor> \<and> 0 \<le> x \<and> x < 0 \<and> y = of_int \<lfloor>y\<rfloor> \<and> 0 \<le> y \<and> y < 0
                 then Some (newNode 0 1 x y) else None
             | _ \<Rightarrow> None) = (\<lambda>k. None)"
    by (rule ext) (auto split: prod.splits jsnum.splits)
  then show ?thesis
    by (simp add: newPathfindingSystem_def exEmptyGrid_def)
qed



lemma generateDirectPath_points:
  "generateDirectPath startPos endPos =
     map (\<lambda>i. \<lparr>vx = vx startPos + (vx endPos - vx startPos) * (real_of_int i / real_of_int (max 2 \<lfloor>distanceTo startPos endPos / 5\<rfloor>)),
               vy = 1 / 2,
               vz = vz startPos + (vz endPos - vz startPos) * (real_of_int i / real_of_int (max 2 \<lfloor>distanceTo startPos endPos / 5\<rfloor>))\<rparr>)
       [0 .. max 2 \<lfloor>distanceTo startPos endPos / 5\<rfloor>]"
  by (simp add: generateDirectPath_def lerpVectors_def Let_def)

lemma exGrid_cells:
  "worldToGrid exGrid exWest = (Num 0, Num 1)"
  "worldToGrid exGrid exEast = (Num 2, Num 1)"
  "worldToGrid exGrid exFarWest = (Num 0, Num 1)"
  by (simp_all add: worldToGrid_def exGrid_def exWest_def exEast_def exFarWest_def Let_def)









text \<open>
  C10, as the code has it. In a grid with at least one column and one row and a cell size that
  is not 0, as in every grid with a cell that the constructor builds, \<open>worldToGrid\<close> gives whole
  indices within \<open>0 .. width - 1\<close> and \<open>0 .. height - 1\<close> for every position; for a positive cell
  size a position beyond a border of the world gets the index of that border. The test of
  \<open>isValidGridPosition\<close> at the head of \<open>findPath\<close> then succeeds, and \<open>findPath\<close> goes on with
  the two cells.
\<close>

theorem worldToGrid_clamped:
  assumes "grid_cellSize ps \<noteq> 0" and "1 \<le> grid_width ps" and "1 \<le> grid_height ps"
  shows "\<exists>x y. worldToGrid ps worldPos = (Num (real_of_int x), Num (real_of_int y))
           \<and> 0 \<le> x \<and> x \<le> grid_width ps - 1 \<and> 0 \<le> y \<and> y \<le> grid_height ps - 1
           \<and> (0 < grid_cellSize ps \<longrightarrow>
                (vx worldPos < - (real_of_int (grid_width ps) * grid_cellSize ps / 2) \<longrightarrow> x = 0)
              \<and> (real_of_int (grid_width ps) * grid_cellSize ps / 2 \<le> vx worldPos \<longrightarrow> x = grid_width ps - 1)
              \<and> (vz worldPos < - (real_of_int (grid_height ps) * grid_cellSize ps / 2) \<longrightarrow> y = 0)
              \<and> (real_of_int (grid_height ps) * grid_cellSize ps / 2 \<le> vz worldPos \<longrightarrow> y = grid_height ps - 1))
           \<and> isValidGridPosition ps (fst (worldToGrid ps worldPos)) (snd (worldToGrid ps worldPos))
           \<and> findPath ps startPos endPos =
               searchBetween ps (worldToGrid ps startPos) (worldToGrid ps endPos) startPos endPos"
proof -
  have range: "0 \<le> cellIndex n (grid_cellSize ps) v \<and> cellIndex n (grid_cellSize ps) v \<le> n - 1"
    if "1 \<le> n" for n v
    using that by (simp add: cellIndex_def)
  have low: "cellIndex n cs v = 0" if "0 < cs" "v < - (real_of_int n * cs / 2)" "1 \<le> n" for n cs v
  proof -
    have "(v + real_of_int n * cs / 2) / cs < 0"
      using that(1,2) by (simp add: field_simps)
    then have "\<lfloor>(v + real_of_int n * cs / 2) / cs\<rfloor> < 0" by linarith
    then show ?thesis using that(3) unfolding cellIndex_def by linarith
  qed
  have high: "cellIndex n cs v = n - 1" if "0 < cs" "real_of_int n * cs / 2 \<le> v" "1 \<le> n" for n cs v
  proof -
    have "real_of_int n * cs \<le> v + real_of_int n * cs / 2"
      using that(2) by simp
    then have "real_of_int n \<le> (v + real_of_int n * cs / 2) / cs"
      using that(1) by (simp add: field_simps)
    then have "n \<le> \<lfloor>(v + real_of_int n * cs / 2) / cs\<rfloor>" by linarith
    then show ?thesis using that(3) unfolding cellIndex_def by linarith
  qed
  have valid: "isValidGridPosition ps (fst (worldToGrid ps p)) (snd (worldToGrid ps p))" for p
    unfolding worldToGrid_Num[OF assms(1)]
    using range[OF assms(2)] range[OF assms(3)]
    by (simp only: fst_conv snd_conv isValidGridPosition_Num) force
  have f: "findPath ps startPos endPos =
               searchBetween ps (worldToGrid ps startPos) (worldToGrid ps endPos) startPos endPos"
    using valid by (simp add: findPath_def Let_def)
  let ?x = "cellIndex (grid_width ps) (grid_cellSize ps) (vx worldPos)"
  let ?y = "cellIndex (grid_height ps) (grid_cellSize ps) (vz worldPos)"
  have g: "worldToGrid ps worldPos = (Num (real_of_int ?x), Num (real_of_int ?y))"
    by (rule worldToGrid_Num[OF assms(1)])
  have r: "0 \<le> ?x \<and> ?x \<le> grid_width ps - 1 \<and> 0 \<le> ?y \<and> ?y \<le> grid_height ps - 1"
    using range[OF assms(2)] range[OF assms(3)] by blast
  have b: "0 < grid_cellSize ps \<longrightarrow>
                (vx worldPos < - (real_of_int (grid_width ps) * grid_cellSize ps / 2) \<longrightarrow> ?x = 0)
              \<and> (real_of_int (grid_width ps) * grid_cellSize ps / 2 \<le> vx worldPos \<longrightarrow> ?x = grid_width ps - 1)
              \<and> (vz worldPos < - (real_of_int (grid_height ps) * grid_cellSize ps / 2) \<longrightarrow> ?y = 0)
              \<and> (real_of_int (grid_height ps) * grid_cellSize ps / 2 \<le> vz worldPos \<longrightarrow> ?y = grid_height ps - 1)"
    using low[OF _ _ assms(2)] high[OF _ _ assms(2)] low[OF _ _ assms(3)] high[OF _ _ assms(3)]
    by blast
  from g r b valid[of worldPos] f show ?thesis by blast
qed

theorem worldToGrid_clamped_witness:
  "grid_cellSize exGrid \<noteq> 0 \<and> 1 \<le> grid_width exGrid \<and> 1 \<le> grid_height exGrid
   \<and> 0 < grid_cellSize exGrid
   \<and> vx exFarWest < - (real_of_int (grid_width exGrid) * grid_cellSize exGrid / 2)
   \<and> worldToGrid exGrid exFarWest = (Num 0, Num 1)
   \<and> isValidGridPosition exGrid (Num 0) (Num 1)
   \<and> findPath exGrid exFarWest exEast
       = searchBetween exGrid (Num 0, Num 1) (Num 2, Num 1) exFarWest exEast"
proof -
  have h: "grid_cellSize exGrid \<noteq> 0" "1 \<le> grid_width exGrid" "1 \<le> grid_height exGrid"
    "0 < grid_cellSize exGrid"
    "vx exFarWest < - (real_of_int (grid_width exGrid) * grid_cellSize exGrid / 2)"
    by (simp_all add: exGrid_def exFarWest_def)
  from worldToGrid_clamped[OF h(1,2,3), of exFarWest exFarWest exEast] h
  show ?thesis
    by (auto simp: exGrid_cells)
qed

text \<open>
  C10 as stated fails on a grid without cells, as \<open>new PathfindingSystem(0, 1)\<close> builds it:
  \<open>worldToGrid\<close> gives \<open>(0, 0)\<close>, which is not below the width 0, the test at the head of
  \<open>findPath\<close> fails, and \<open>findPath\<close> returns the direct path.
\<close>

theorem worldToGrid_clamped_counterexample:
  "newPathfindingSystem 0 1 = Some exEmptyGrid
   \<and> worldToGrid exEmptyGrid exWest = (Num 0, Num 0)
   \<and> \<not> isValidGridPosition exEmptyGrid (Num 0) (Num 0)
   \<and> findPath exEmptyGrid exWest exEast = Some (generateDirectPath exWest exEast)"
proof -
  have g: "worldToGrid exEmptyGrid exWest = (Num 0, Num 0)"
      "worldToGrid exEmptyGrid exEast = (Num 0, Num 0)"
    by (simp_all add: worldToGrid_def exEmptyGrid_def exWest_def exEast_def Let_def)
  have v: "\<not> isValidGridPosition exEmptyGrid (Num 0) (Num 0)"
    by (simp add: isValidGridPosition_def exEmptyGrid_def)
  have "findPath exEmptyGrid exWest exEast = Some (generateDirectPath exWest exEast)"
    using v by (simp add: findPath_def Let_def g)
  with g v exEmptyGrid_new show ?thesis by simp
qed

end
